theory Spec2Isabelle
  imports Main "HOL-Library.Char_ord" "HOL-Library.List_Lexorder" "HOL-Library.Multiset"
begin

section \<open>JavaScript values and errors\<close>

text \<open>
  The controller receives loosely typed data (\<open>newUser: any\<close>, query parameters that
  may be missing). A field is \<open>Undefined\<close> when it is absent, \<open>Null\<close> when it is
  \<open>null\<close>, and a string otherwise. Characters are code units below 256. Fields that
  hold a number, a boolean, an array or an object are not part of the model: every
  statement below is about fields that are absent, null or strings.
\<close>

datatype jsval = Undefined | Null | Str string

text \<open>
  The errors of \<open>routing-controllers\<close> that the controller throws, each with its message,
  and the two failures that are not thrown by a \<open>throw\<close> statement: a \<open>TypeError\<close>
  of the runtime (a property read on \<open>null\<close> or \<open>undefined\<close>) and a rejected
  database promise.
\<close>

datatype error =
    BadRequestError string
  | ForbiddenError string
  | InternalServerError string
  | NotFoundError string
  | TypeError
  | DatabaseError

fun isNullOrUndefined :: "jsval \<Rightarrow> bool" where
  "isNullOrUndefined Undefined = True"
| "isNullOrUndefined Null = True"
| "isNullOrUndefined (Str s) = False"

text \<open>Truthiness of a value in a condition: the empty string, null and undefined are falsy.\<close>

fun truthy :: "jsval \<Rightarrow> bool" where
  "truthy Undefined = False"
| "truthy Null = False"
| "truthy (Str s) = (s \<noteq> [])"

section \<open>User records\<close>

text \<open>
  The fields of \<open>IUser\<close> that the controller reads or writes. The field \<open>_id\<close> is
  written \<open>u_id\<close>. The profile and the timestamps are carried by the record's
  extension part and are never inspected.
\<close>

record IUser =
  u_id :: jsval
  uid :: jsval
  email :: jsval
  password :: jsval
  role :: jsval

text \<open>The body of a \<open>PUT\<close> request: a user object with the extra field \<open>currentPassword\<close>.\<close>

record NewUser = IUser +
  currentPassword :: jsval

section \<open>cleanUserObject\<close>

text \<open>
  The parameter \<open>id\<close> is written \<open>ident\<close>.
  \<open>user.password = ''; if (currentUser._id !== id && (currentUser.role !== 'teacher' ||
  currentUser.role !== 'admin')) { user.uid = null; } return user.toObject(...)\<close>.
  The conversion \<open>toObject\<close> keeps the fields.
\<close>

definition cleanUserObject :: "string \<Rightarrow> IUser \<Rightarrow> IUser \<Rightarrow> IUser" where
  "cleanUserObject ident user currentUser =
     (let user1 = user\<lparr>password := Str []\<rparr> in
      if u_id currentUser \<noteq> Str ident \<and>
         (role currentUser \<noteq> Str ''teacher'' \<or> role currentUser \<noteq> Str ''admin'')
      then user1\<lparr>uid := Null\<rparr>
      else user1)"

section \<open>searchUser\<close>

text \<open>White space removed by \<open>String.prototype.trim\<close>, among the code units below 256.\<close>

definition isWhiteSpace :: "char \<Rightarrow> bool" where
  "isWhiteSpace c = (of_char c \<in> {9, 10, 11, 12, 13, 32, 160 :: nat})"

definition trim :: "string \<Rightarrow> string" where
  "trim s = rev (dropWhile isWhiteSpace (rev (dropWhile isWhiteSpace s)))"

text \<open>
  \<open>text.replace(/[-\/\\^$*+?.()|[\]{}]/g, '\\$&')\<close>: a backslash before each of the
  listed characters.
\<close>

definition regexSpecial :: "char list" where
  "regexSpecial = CHR 0x5C # ''-/^$*+?.()|[]{}''"

definition escapeRegex :: "string \<Rightarrow> string" where
  "escapeRegex text = concat (map (\<lambda>c. if c \<in> set regexSpecial then [CHR 0x5C, c] else [c]) text)"

text \<open>\<open>s.split(' ')\<close>: the pieces between single spaces, empty pieces included.\<close>

fun split_space :: "string \<Rightarrow> string list" where
  "split_space [] = [[]]"
| "split_space (c # cs) =
     (if c = CHR '' '' then [] # split_space cs
      else (case split_space cs of p # ps \<Rightarrow> (c # p) # ps | [] \<Rightarrow> [[c]]))"

text \<open>
  The outcome of a search: the users found, each passed through \<open>forUser\<close>, and the
  number of users of the role.
\<close>

record 'r SearchResult =
  users :: "'r list"
  meta_count :: nat

text \<open>
  The database is the list of the stored user documents. The text and regular expression
  matching of the database, with its ordering by score, is a parameter \<open>matching\<close>: it
  receives the trimmed query, the escaped pieces and the documents of the role. The method
  \<open>forUser\<close> of the user model and the constant \<open>errorCodes.query.empty.code\<close> are
  parameters as well. A missing or zero \<open>limit\<close> means no limit. The parameters
  \<open>role\<close> and \<open>query\<close> are written \<open>role0\<close> and \<open>query0\<close>; a query
  parameter that is missing is \<open>Undefined\<close>, and \<open>query.trim()\<close> fails on it.
\<close>

definition searchUser ::
  "(string \<Rightarrow> string list \<Rightarrow> IUser list \<Rightarrow> IUser list) \<Rightarrow> (IUser \<Rightarrow> IUser \<Rightarrow> 'r) \<Rightarrow> string \<Rightarrow>
   IUser list \<Rightarrow> IUser \<Rightarrow> jsval \<Rightarrow> jsval \<Rightarrow> nat option \<Rightarrow> error + 'r SearchResult" where
  "searchUser matching forUser emptyCode db currentUser role0 query0 limit =
     (if role0 \<noteq> Str ''student'' \<and> role0 \<noteq> Str ''teacher''
      then Inl (BadRequestError ''Method not allowed for this role.'')
      else case query0 of
        Undefined \<Rightarrow> Inl TypeError
      | Null \<Rightarrow> Inl TypeError
      | Str q0 \<Rightarrow>
          (let query = Str (trim q0) in
           if isNullOrUndefined query then Inl (BadRequestError emptyCode)
           else
             let escaped = split_space (escapeRegex (trim q0));
                 ofRole = filter (\<lambda>u. IUser.role u = role0) db;
                 amountUsers = length ofRole;
                 found = matching (trim q0) escaped ofRole;
                 limited = (case limit of
                              None \<Rightarrow> found
                            | Some n \<Rightarrow> if n = 0 then found else take n found)
             in Inr \<lparr>users = map (\<lambda>user. forUser user currentUser) limited,
                     meta_count = amountUsers\<rparr>))"

section \<open>updateUser\<close>

text \<open>
  \<open>const editLevels = {student: 0, teacher: 1, admin: 2}\<close>. A property is looked up
  under the string of the value (\<open>undefined\<close> and \<open>null\<close> under their names);
  \<open>editLevel v\<close> is \<open>None\<close> exactly when \<open>editLevels.hasOwnProperty(v)\<close> is false,
  and \<open>Some (editLevels[v])\<close> otherwise. This is the lookup for a value that is absent,
  null or a string. A value of another kind is converted to a string first (an array to
  its elements joined by commas, so that the array \<open>['teacher']\<close> has the property
  \<open>teacher\<close>); such values are outside the model.
\<close>

definition editLevels :: "(string \<times> nat) list" where
  "editLevels = [(''student'', 0), (''teacher'', 1), (''admin'', 2)]"

fun propertyKey :: "jsval \<Rightarrow> string" where
  "propertyKey Undefined = ''undefined''"
| "propertyKey Null = ''null''"
| "propertyKey (Str s) = s"

definition editLevel :: "jsval \<Rightarrow> nat option" where
  "editLevel v = map_of editLevels (propertyKey v)"

text \<open>
  Modelled from the spec: \<open>User.checkPrivileges\<close> belongs to the user model, whose file
  is not among the sources. The spec speaks of the actor being admin ("acting as admin",
  "only admins may change role or uid"): \<open>userIsAdmin\<close> is that the role is admin.
\<close>

definition userIsAdmin :: "IUser \<Rightarrow> bool" where
  "userIsAdmin currentUser = (role currentUser = Str ''admin'')"

text \<open>\<open>User.findById(id)\<close>: the document of that id, or null.\<close>

definition findById :: "IUser list \<Rightarrow> string \<Rightarrow> IUser option" where
  "findById db ident = find (\<lambda>u. u_id u = Str ident) db"

text \<open>
  \<open>User.find({$and: [{email: newUser.email}, {_id: {$ne: newUser._id}}]}).limit(1)\<close>,
  for an email and an id that are strings.
\<close>

definition findSameEmail :: "IUser list \<Rightarrow> NewUser \<Rightarrow> IUser list" where
  "findSameEmail db newUser =
     take 1 (filter (\<lambda>u. email u = email newUser \<and> u_id u \<noteq> u_id newUser) db)"

text \<open>
  The last two statements: the write \<open>User.findOneAndUpdate({_id: id}, newUser, {new: true})\<close>
  is a parameter that returns the new database and the updated document, or \<open>None\<close>
  when the write fails; \<open>forUser\<close> of the user model is a parameter.
\<close>

definition finishUpdate ::
  "(IUser list \<Rightarrow> string \<Rightarrow> NewUser \<Rightarrow> (IUser list \<times> IUser) option) \<Rightarrow> (IUser \<Rightarrow> IUser \<Rightarrow> 'r) \<Rightarrow>
   IUser list \<Rightarrow> string \<Rightarrow> NewUser \<Rightarrow> IUser \<Rightarrow> error + (IUser list \<times> 'r)" where
  "finishUpdate findOneAndUpdate forUser db ident newUser currentUser =
     (case findOneAndUpdate db ident newUser of
        None \<Rightarrow> Inl DatabaseError
      | Some (db', updatedUser) \<Rightarrow> Inr (db', forUser updatedUser currentUser))"

text \<open>
  \<open>updateUser(id, newUser, currentUser)\<close>, check by check in the order of the source.
  \<open>isValidPassword\<close> is the method of the stored document. A password that is
  \<open>null\<close> fails on \<open>newUser.password.length\<close>; a stored document that is not found
  fails on \<open>oldUser.role\<close>.
\<close>

definition updateUser ::
  "(IUser \<Rightarrow> jsval \<Rightarrow> bool) \<Rightarrow>
   (IUser list \<Rightarrow> string \<Rightarrow> NewUser \<Rightarrow> (IUser list \<times> IUser) option) \<Rightarrow> (IUser \<Rightarrow> IUser \<Rightarrow> 'r) \<Rightarrow>
   IUser list \<Rightarrow> string \<Rightarrow> NewUser \<Rightarrow> IUser \<Rightarrow> error + (IUser list \<times> 'r)" where
  "updateUser isValidPassword findOneAndUpdate forUser db ident newUser currentUser =
     (case editLevel (role newUser) of
        None \<Rightarrow> Inl (BadRequestError ''Invalid update role.'')
      | Some newEditLevel \<Rightarrow>
     (case editLevel (role currentUser) of
        None \<Rightarrow> Inl (InternalServerError ''Invalid current user role.'')
      | Some currentEditLevel \<Rightarrow>
     (let selfModification = (Str ident = u_id currentUser);
          currentUserIsAdmin = userIsAdmin currentUser
      in
      if selfModification \<and> role currentUser \<noteq> role newUser
      then Inl (BadRequestError ''You can't change your own role.'')
      else if length (findSameEmail db newUser) > 0
      then Inl (BadRequestError ''This email address is already in use.'')
      else
     (case findById db ident of
        None \<Rightarrow> Inl TypeError
      | Some oldUser \<Rightarrow>
     (case editLevel (role oldUser) of
        None \<Rightarrow> Inl (InternalServerError ''Invalid old user role.'')
      | Some oldEditLevel \<Rightarrow>
      if \<not> currentUserIsAdmin \<and> currentEditLevel \<le> oldEditLevel \<and> \<not> selfModification
      then Inl (ForbiddenError ''You don't have the authorization to change a user of this role.'')
      else if \<not> currentUserIsAdmin \<and> role newUser \<noteq> role oldUser
      then Inl (ForbiddenError ''Only users with admin privileges can change roles.'')
      else if \<not> currentUserIsAdmin \<and> uid newUser \<noteq> uid oldUser
      then Inl (ForbiddenError ''Only users with admin privileges can change uids.'')
      else
        let newUser1 = (if truthy (uid oldUser) \<and> uid newUser = Null
                        then newUser\<lparr>uid := uid oldUser\<rparr> else newUser)
        in
        (case password newUser1 of
           Undefined \<Rightarrow> finishUpdate findOneAndUpdate forUser db ident newUser1 currentUser
         | Null \<Rightarrow> Inl TypeError
         | Str p \<Rightarrow>
             if length p = 0
             then finishUpdate findOneAndUpdate forUser db ident
                    (newUser1\<lparr>password := Undefined\<rparr>) currentUser
             else if \<not> isValidPassword oldUser (currentPassword newUser1)
             then Inl (BadRequestError ''Invalid current password!'')
             else finishUpdate findOneAndUpdate forUser db ident newUser1 currentUser))))))"

text \<open>
  The decorator \<open>@Authorized(['student', 'teacher', 'admin'])\<close> of \<open>updateUser\<close>: the
  roles of the actors for whom the framework makes the call.
\<close>

definition updateUserAuthorized :: "IUser \<Rightarrow> bool" where
  "updateUserAuthorized currentUser =
     (role currentUser = Str ''student'' \<or> role currentUser = Str ''teacher'' \<or>
      role currentUser = Str ''admin'')"

text \<open>
  A database write to run \<open>updateUser\<close> on examples: the first document of the id takes
  every field of the payload that is not undefined, its \<open>_id\<close> apart.
\<close>

definition mergeUser :: "IUser \<Rightarrow> NewUser \<Rightarrow> IUser" where
  "mergeUser old new =
     \<lparr>u_id = u_id old,
      uid = (if uid new = Undefined then uid old else uid new),
      email = (if email new = Undefined then email old else email new),
      password = (if password new = Undefined then password old else password new),
      role = (if role new = Undefined then role old else role new)\<rparr>"

fun writeFirst :: "IUser list \<Rightarrow> string \<Rightarrow> NewUser \<Rightarrow> (IUser list \<times> IUser) option" where
  "writeFirst [] ident new = None"
| "writeFirst (u # us) ident new =
     (if u_id u = Str ident then Some (mergeUser u new # us, mergeUser u new)
      else (case writeFirst us ident new of
              None \<Rightarrow> None
            | Some (us', updated) \<Rightarrow> Some (u # us', updated)))"

section \<open>deleteUser\<close>

text \<open>\<open>User.findByIdAndRemove(id)\<close>: the first document of that id is removed, if any.\<close>

fun findByIdAndRemove :: "IUser list \<Rightarrow> string \<Rightarrow> IUser list" where
  "findByIdAndRemove [] ident = []"
| "findByIdAndRemove (u # us) ident =
     (if u_id u = Str ident then us else u # findByIdAndRemove us ident)"

text \<open>
  \<open>User.find({role: 'admin'})\<close>, then the test \<open>adminUsers.length === 1 &&
  adminUsers[0].get('id') === id && adminUsers[0].role === 'admin'\<close>. The result
  \<open>{result: true}\<close> is returned with the new database.
\<close>

definition deleteUser :: "IUser list \<Rightarrow> string \<Rightarrow> error + (IUser list \<times> bool)" where
  "deleteUser db ident =
     (let adminUsers = filter (\<lambda>u. role u = Str ''admin'') db in
      case adminUsers of
        [a] \<Rightarrow>
          if u_id a = Str ident \<and> role a = Str ''admin''
          then Inl (BadRequestError ''There are no other users with admin privileges.'')
          else Inr (findByIdAndRemove db ident, True)
      | _ \<Rightarrow> Inr (findByIdAndRemove db ident, True))"

section \<open>The course media component\<close>

text \<open>
  A file of the media manager. Files are objects: \<open>oid\<close> is the identity of the object,
  which \<open>indexOf\<close> compares (\<open>===\<close>); the other fields are those of \<open>IFile\<close>, with
  \<open>_id\<close> written \<open>f_id\<close> and \<open>size\<close> written \<open>fsize\<close>.
\<close>

record IFile =
  oid :: nat
  f_id :: string
  name :: string
  link :: string
  fsize :: nat

text \<open>A directory, with \<open>_id\<close> written \<open>d_id\<close> and \<open>name\<close> written \<open>d_name\<close>.\<close>

datatype IDirectory =
  IDirectory (d_id: string) (d_name: string) (subDirectories: "IDirectory list") (files: "IFile list")

text \<open>
  \<open>String.prototype.toLowerCase\<close> on code units below 256: the letters A to Z and the
  capital letters of Latin-1 (192 to 222, the multiplication sign 215 apart) move up by 32.
\<close>

definition toLowerChar :: "char \<Rightarrow> char" where
  "toLowerChar c =
     (let n = (of_char c :: nat) in
      if (65 \<le> n \<and> n \<le> 90) \<or> (192 \<le> n \<and> n \<le> 222 \<and> n \<noteq> 215) then char_of (n + 32) else c)"

definition toLowerCase :: "string \<Rightarrow> string" where
  "toLowerCase s = map toLowerChar s"

text \<open>
  \<open>sortFnc(a, b)\<close> reads the field \<open>name\<close> of either kind of object: the accessor is
  the parameter \<open>nm\<close>. Strings compare by code units, a proper prefix first.
\<close>

definition sortFnc :: "('a \<Rightarrow> string) \<Rightarrow> 'a \<Rightarrow> 'a \<Rightarrow> int" where
  "sortFnc nm a b =
     (let aName = toLowerCase (nm a); bName = toLowerCase (nm b) in
      if aName < bName then - 1
      else if aName > bName then 1
      else 0)"

text \<open>
  \<open>Array.prototype.sort(comparefn)\<close>. The language fixes the result for a consistent
  comparison function up to the order of the elements that compare equal, which a stable
  sort (required since ES2019) keeps: an insertion sort that puts an element before the
  first one it does not exceed.
\<close>

fun insertBy :: "('a \<Rightarrow> 'a \<Rightarrow> int) \<Rightarrow> 'a \<Rightarrow> 'a list \<Rightarrow> 'a list" where
  "insertBy comparefn x [] = [x]"
| "insertBy comparefn x (y # ys) =
     (if comparefn x y \<le> 0 then x # y # ys else y # insertBy comparefn x ys)"

definition Array_sort :: "('a \<Rightarrow> 'a \<Rightarrow> int) \<Rightarrow> 'a list \<Rightarrow> 'a list" where
  "Array_sort comparefn xs = foldr (insertBy comparefn) xs []"

text \<open>
  What the component does to the outside, in order: the calls to the media service and the
  notifications of the snack bar.
\<close>

datatype effect =
    GetDirectory string bool
  | DeleteFile IFile
  | SnackOpen string
  | SnackOpenLong string

text \<open>A promise that is rejected: by the media service, or by reading \<open>_id\<close> of no folder.\<close>

datatype rejection = ServiceRejected string | NoCurrentFolder

text \<open>
  The fields of the component, the state \<open>world\<close> of the media service, and the effects
  so far. \<open>currentFolder\<close> is undefined until the first directory is fetched.
\<close>

record 'w CourseMediaComponent =
  currentFolder :: "IDirectory option"
  folderBarVisible :: bool
  selectedFiles :: "IFile list"
  toggleBlocked :: bool
  world :: 'w
  effects :: "effect list"

definition initialComponent :: "'w \<Rightarrow> 'w CourseMediaComponent" where
  "initialComponent w =
     \<lparr>currentFolder = None, folderBarVisible = False, selectedFiles = [],
      toggleBlocked = False, world = w, effects = []\<rparr>"

text \<open>
  \<open>changeDirectory(mediaId, lazy)\<close>. The media service is the parameter \<open>getDirectory\<close>:
  from its state it answers with a directory or rejects. On a rejection the assignment
  to \<open>currentFolder\<close> does not happen.
\<close>

definition changeDirectory ::
  "(string \<Rightarrow> bool \<Rightarrow> 'w \<Rightarrow> (string + IDirectory) \<times> 'w) \<Rightarrow> string \<Rightarrow> bool \<Rightarrow>
   'w CourseMediaComponent \<Rightarrow> rejection option \<times> 'w CourseMediaComponent" where
  "changeDirectory getDirectory mediaId lazy st =
     (let st1 = st\<lparr>effects := effects st @ [GetDirectory mediaId lazy]\<rparr> in
      case getDirectory mediaId lazy (world st) of
        (Inl msg, w) \<Rightarrow> (Some (ServiceRejected msg), st1\<lparr>world := w\<rparr>)
      | (Inr dir, w) \<Rightarrow>
          (None,
           st1\<lparr>world := w,
               currentFolder :=
                 Some (IDirectory (d_id dir) (d_name dir)
                         (Array_sort (sortFnc d_name) (subDirectories dir))
                         (Array_sort (sortFnc name) (files dir)))\<rparr>))"

definition reloadDirectory ::
  "(string \<Rightarrow> bool \<Rightarrow> 'w \<Rightarrow> (string + IDirectory) \<times> 'w) \<Rightarrow>
   'w CourseMediaComponent \<Rightarrow> rejection option \<times> 'w CourseMediaComponent" where
  "reloadDirectory getDirectory st =
     (case currentFolder st of
        None \<Rightarrow> (Some NoCurrentFolder, st)
      | Some folder \<Rightarrow> changeDirectory getDirectory (d_id folder) True st)"

text \<open>\<open>Array.prototype.indexOf\<close> on objects: the first position of the same object, or -1.\<close>

fun indexOf :: "IFile list \<Rightarrow> IFile \<Rightarrow> int" where
  "indexOf [] file = - 1"
| "indexOf (g # gs) file =
     (if oid g = oid file then 0
      else (let i = indexOf gs file in if i = - 1 then - 1 else i + 1))"

definition isInSelectedFiles :: "'w CourseMediaComponent \<Rightarrow> IFile \<Rightarrow> bool" where
  "isInSelectedFiles st file = (indexOf (selectedFiles st) file \<noteq> - 1)"

text \<open>\<open>xs.splice(position, 1)\<close> for a position in range, and \<open>xs.push(file)\<close>.\<close>

definition splice1 :: "'a list \<Rightarrow> int \<Rightarrow> 'a list" where
  "splice1 xs position = take (nat position) xs @ drop (nat position + 1) xs"

definition toggleSelection :: "IFile \<Rightarrow> 'w CourseMediaComponent \<Rightarrow> 'w CourseMediaComponent" where
  "toggleSelection file st =
     (if toggleBlocked st then st
      else
        let position = indexOf (selectedFiles st) file in
        if position \<noteq> - 1
        then st\<lparr>selectedFiles := splice1 (selectedFiles st) position\<rparr>
        else st\<lparr>selectedFiles := selectedFiles st @ [file]\<rparr>)"

text \<open>\<open>filesFailed.join(', ')\<close>.\<close>

fun join :: "string \<Rightarrow> string list \<Rightarrow> string" where
  "join sep [] = []"
| "join sep [x] = x"
| "join sep (x # y # ys) = x @ sep @ join sep (y # ys)"

text \<open>
  The loop of \<open>removeSelectedFile\<close> over the selected files: \<open>deleteFile\<close> of the media
  service resolves (\<open>True\<close>) or rejects (\<open>False\<close>) from its state; a rejection is caught
  and the name of the file is pushed on \<open>filesFailed\<close>.
\<close>

fun deleteLoop ::
  "(IFile \<Rightarrow> 'w \<Rightarrow> bool \<times> 'w) \<Rightarrow> IFile list \<Rightarrow> string list \<Rightarrow> 'w CourseMediaComponent \<Rightarrow>
   string list \<times> 'w CourseMediaComponent" where
  "deleteLoop deleteFile [] filesFailed st = (filesFailed, st)"
| "deleteLoop deleteFile (file # rest) filesFailed st =
     (case deleteFile file (world st) of
        (resolved, w) \<Rightarrow>
          deleteLoop deleteFile rest
            (if resolved then filesFailed else filesFailed @ [name file])
            (st\<lparr>world := w, effects := effects st @ [DeleteFile file]\<rparr>))"

text \<open>
  \<open>removeSelectedFile()\<close>. The answer of the confirmation dialog is the parameter
  \<open>deleteSelectedFiles\<close>, \<open>None\<close> when the dialog closes with no answer; only the answer
  \<open>false\<close> returns early. When the reload is rejected, the last statement is not reached.
\<close>

definition removeSelectedFile ::
  "(string \<Rightarrow> bool \<Rightarrow> 'w \<Rightarrow> (string + IDirectory) \<times> 'w) \<Rightarrow> (IFile \<Rightarrow> 'w \<Rightarrow> bool \<times> 'w) \<Rightarrow>
   bool option \<Rightarrow> 'w CourseMediaComponent \<Rightarrow> rejection option \<times> 'w CourseMediaComponent" where
  "removeSelectedFile getDirectory deleteFile deleteSelectedFiles st =
     (let st1 = st\<lparr>toggleBlocked := True\<rparr> in
      if deleteSelectedFiles = Some False then (None, st1)
      else
        case deleteLoop deleteFile (selectedFiles st1) [] st1 of
          (filesFailed, st2) \<Rightarrow>
            let st3 = (if length filesFailed = 0
                       then st2\<lparr>effects := effects st2 @ [SnackOpen ''Removed all selected files'']\<rparr>
                       else st2\<lparr>effects := effects st2 @
                                 [SnackOpenLong (''Could not remove: '' @ join '', '' filesFailed)]\<rparr>);
                st4 = st3\<lparr>selectedFiles := []\<rparr>
            in
            case reloadDirectory getDirectory st4 of
              (Some err, st5) \<Rightarrow> (Some err, st5)
            | (None, st5) \<Rightarrow> (None, st5\<lparr>toggleBlocked := False\<rparr>))"

text \<open>
  The outcomes of the deletions of a list of files, one after the other from a state of
  the media service: the reading of "the files whose deletion failed".
\<close>

fun deletionOutcomes :: "(IFile \<Rightarrow> 'w \<Rightarrow> bool \<times> 'w) \<Rightarrow> IFile list \<Rightarrow> 'w \<Rightarrow> bool list" where
  "deletionOutcomes deleteFile [] w = []"
| "deletionOutcomes deleteFile (file # rest) w =
     (case deleteFile file w of
        (resolved, w') \<Rightarrow> resolved # deletionOutcomes deleteFile rest w')"

definition failedNames :: "(IFile \<Rightarrow> 'w \<Rightarrow> bool \<times> 'w) \<Rightarrow> IFile list \<Rightarrow> 'w \<Rightarrow> string list" where
  "failedNames deleteFile fs w =
     map (name \<circ> fst) (filter (\<lambda>(file, resolved). \<not> resolved) (zip fs (deletionOutcomes deleteFile fs w)))"

subsection \<open>Example data for the component\<close>

text \<open>
  Example data for the component: three files, a directory that lists them out of order,
  and a media service whose state is the list of the ids of the files it stores. It
  knows the directory \<open>d1\<close>, and it deletes a file it stores and rejects otherwise.
\<close>

definition fileA :: IFile where
  "fileA = \<lparr>oid = 1, f_id = ''fa'', name = ''beta.pdf'', link = ''l1'', fsize = 10\<rparr>"

definition fileB :: IFile where
  "fileB = \<lparr>oid = 2, f_id = ''fb'', name = ''Alpha.txt'', link = ''l2'', fsize = 20\<rparr>"

definition fileC :: IFile where
  "fileC = \<lparr>oid = 3, f_id = ''fc'', name = ''alpha.png'', link = ''l3'', fsize = 30\<rparr>"

definition exampleDir :: IDirectory where
  "exampleDir =
     IDirectory ''d1'' ''media''
       [IDirectory ''d3'' ''Zeta'' [] [], IDirectory ''d2'' ''apple'' [] []]
       [fileA, fileB, fileC]"

definition exampleGetDirectory :: "string \<Rightarrow> bool \<Rightarrow> string list \<Rightarrow> (string + IDirectory) \<times> string list" where
  "exampleGetDirectory mediaId lazy w =
     (if mediaId = ''d1'' then (Inr exampleDir, w) else (Inl ''not found'', w))"

definition exampleDeleteFile :: "IFile \<Rightarrow> string list \<Rightarrow> bool \<times> string list" where
  "exampleDeleteFile f w = (if f_id f \<in> set w then (True, remove1 (f_id f) w) else (False, w))"

definition exampleComponent :: "string list \<Rightarrow> string list CourseMediaComponent" where
  "exampleComponent w =
     (initialComponent w)\<lparr>currentFolder := Some exampleDir, selectedFiles := [fileA, fileB, fileC]\<rparr>"

section \<open>Example data\<close>

text \<open>Three stored users and the database that holds them, for the examples below.\<close>

definition student1 :: IUser where
  "student1 = \<lparr>u_id = Str ''s1'', uid = Str ''123456'', email = Str ''s1@test.local'',
                password = Str ''hash'', role = Str ''student''\<rparr>"

definition teacher1 :: IUser where
  "teacher1 = \<lparr>u_id = Str ''t1'', uid = Null, email = Str ''t1@test.local'',
                password = Str ''hash'', role = Str ''teacher''\<rparr>"

definition admin1 :: IUser where
  "admin1 = \<lparr>u_id = Str ''a1'', uid = Null, email = Str ''a1@test.local'',
              password = Str ''hash'', role = Str ''admin''\<rparr>"

definition admin2 :: IUser where
  "admin2 = \<lparr>u_id = Str ''a2'', uid = Null, email = Str ''a2@test.local'',
              password = Str ''hash'', role = Str ''admin''\<rparr>"

definition exampleDb :: "IUser list" where
  "exampleDb = [student1, teacher1, admin1]"

text \<open>A payload for \<open>student1\<close> that changes nothing, to be varied field by field.\<close>

definition payload1 :: NewUser where
  "payload1 = \<lparr>u_id = Str ''s1'', uid = Str ''123456'', email = Str ''s1@test.local'',
                password = Undefined, role = Str ''student'', currentPassword = Undefined\<rparr>"

section \<open>Results on the user controller\<close>

text \<open>
  The password of a cleaned user object is blank, and its uid is kept exactly when the
  viewer is the subject: the disjunction in the condition holds for every role.
\<close>

lemma cleanUserObject_password: "password (cleanUserObject ident user currentUser) = Str []"
  by (simp add: cleanUserObject_def Let_def)

lemma cleanUserObject_uid:
  "uid (cleanUserObject ident user currentUser) = (if u_id currentUser = Str ident then uid user else Null)"
  by (auto simp: cleanUserObject_def Let_def)

text \<open>
  C1. A cleaned user object should keep its uid for a viewer whose role is teacher or
  admin. Here the teacher \<open>teacher1\<close> views the user \<open>student1\<close>, whose uid is
  \<open>123456\<close>: the password is blanked and the uid is nulled all the same.
\<close>

theorem cleanUserObject_teacher_uid_nulled:
  "cleanUserObject ''s1'' student1 teacher1 = student1\<lparr>uid := Null, password := Str []\<rparr>"
  by (simp add: cleanUserObject_def student1_def teacher1_def)

text \<open>
  C2. A search with an empty query should be rejected with a bad-request error. At the
  input below (role student, query the empty string) the call is not rejected: the trimmed
  query is a string, never null or undefined, so the search is performed and its result
  returned.
\<close>

theorem searchUser_empty_query_not_rejected:
  "searchUser (\<lambda>q pieces us. us) (\<lambda>user viewer. user) ''emptyQuery'' [student1] teacher1
     (Str ''student'') (Str []) None
   = Inr \<lparr>users = [student1], meta_count = 1\<rparr>"
  by (simp add: searchUser_def trim_def student1_def)

text \<open>C1 at the same input, field by field.\<close>

theorem cleanUserObject_teacher_uid_nulled_witness:
  "uid (cleanUserObject ''s1'' student1 teacher1) = Null
   \<and> password (cleanUserObject ''s1'' student1 teacher1) = Str []
   \<and> uid student1 = Str ''123456'' \<and> role teacher1 = Str ''teacher''"
  using cleanUserObject_teacher_uid_nulled
  by (simp add: student1_def teacher1_def)

text \<open>C2 at the same input: the outcome is not an error, and the student is counted.\<close>

theorem searchUser_empty_query_not_rejected_witness:
  "(case searchUser (\<lambda>q pieces us. us) (\<lambda>user viewer. user) ''emptyQuery'' [student1] teacher1
           (Str ''student'') (Str []) None of
      Inl e \<Rightarrow> False
    | Inr r \<Rightarrow> meta_count r = 1 \<and> users r = [student1])"
  using searchUser_empty_query_not_rejected
  by simp

subsection \<open>updateUser: the checks in order\<close>

text \<open>The roles that have an edit level.\<close>

lemma editLevel_None: "editLevel v = None \<longleftrightarrow> v \<noteq> Str ''student'' \<and> v \<noteq> Str ''teacher'' \<and> v \<noteq> Str ''admin''"
  by (cases v) (simp_all add: editLevel_def editLevels_def)

lemma editLevel_student: "editLevel (Str ''student'') = Some 0"
  by (simp add: editLevel_def editLevels_def)

lemma editLevel_teacher: "editLevel (Str ''teacher'') = Some 1"
  by (simp add: editLevel_def editLevels_def)

lemma editLevel_admin: "editLevel (Str ''admin'') = Some 2"
  by (simp add: editLevel_def editLevels_def)

lemma finishUpdate_not_BadRequest: "finishUpdate fou fu db ident nu cu \<noteq> Inl (BadRequestError m)"
  by (simp add: finishUpdate_def split: option.split prod.split)

lemma finishUpdate_not_Forbidden: "finishUpdate fou fu db ident nu cu \<noteq> Inl (ForbiddenError m)"
  by (simp add: finishUpdate_def split: option.split prod.split)

text \<open>
  The outcome of \<open>updateUser\<close> at each check, given that the earlier checks have passed.
\<close>

lemma updateUser_invalid_role:
  "editLevel (role newUser) = None \<Longrightarrow>
   updateUser ivp fou fu db ident newUser currentUser = Inl (BadRequestError ''Invalid update role.'')"
  by (simp add: updateUser_def)

lemma updateUser_not_invalid_role:
  "editLevel (role newUser) = Some n \<Longrightarrow>
   updateUser ivp fou fu db ident newUser currentUser \<noteq> Inl (BadRequestError ''Invalid update role.'')"
  by (simp add: updateUser_def Let_def finishUpdate_not_BadRequest split: option.split jsval.split)

lemma authorized_editLevel: "updateUserAuthorized cu \<Longrightarrow> \<exists>n. editLevel (role cu) = Some n"
  by (auto simp: updateUserAuthorized_def editLevel_student editLevel_teacher editLevel_admin)

lemma findSameEmail_empty:
  "(findSameEmail db newUser = []) \<longleftrightarrow> \<not> (\<exists>u\<in>set db. email u = email newUser \<and> u_id u \<noteq> u_id newUser)"
  by (auto simp: findSameEmail_def filter_empty_conv)

lemma updateUser_self_role:
  assumes "editLevel (role newUser) = Some n" "editLevel (role currentUser) = Some c"
    "Str ident = u_id currentUser" "role currentUser \<noteq> role newUser"
  shows "updateUser ivp fou fu db ident newUser currentUser = Inl (BadRequestError ''You can't change your own role.'')"
  using assms by (simp add: updateUser_def)

lemma updateUser_dup:
  assumes "editLevel (role newUser) = Some n" "editLevel (role currentUser) = Some c"
    "\<not> (Str ident = u_id currentUser \<and> role currentUser \<noteq> role newUser)"
    "findSameEmail db newUser \<noteq> []"
  shows "updateUser ivp fou fu db ident newUser currentUser = Inl (BadRequestError ''This email address is already in use.'')"
  using assms by (cases "Str ident = u_id currentUser") (simp_all add: updateUser_def)

lemma updateUser_not_found:
  assumes "editLevel (role newUser) = Some n" "editLevel (role currentUser) = Some c"
    "\<not> (Str ident = u_id currentUser \<and> role currentUser \<noteq> role newUser)"
    "findSameEmail db newUser = []" "findById db ident = None"
  shows "updateUser ivp fou fu db ident newUser currentUser = Inl TypeError"
  using assms by (cases "Str ident = u_id currentUser") (simp_all add: updateUser_def)

lemma updateUser_old_role:
  assumes "editLevel (role newUser) = Some n" "editLevel (role currentUser) = Some c"
    "\<not> (Str ident = u_id currentUser \<and> role currentUser \<noteq> role newUser)"
    "findSameEmail db newUser = []" "findById db ident = Some oldUser" "editLevel (role oldUser) = None"
  shows "updateUser ivp fou fu db ident newUser currentUser = Inl (InternalServerError ''Invalid old user role.'')"
  using assms by (cases "Str ident = u_id currentUser") (simp_all add: updateUser_def)

lemma updateUser_loaded:
  assumes "editLevel (role newUser) = Some n" "editLevel (role currentUser) = Some c"
    "\<not> (Str ident = u_id currentUser \<and> role currentUser \<noteq> role newUser)"
    "findSameEmail db newUser = []" "findById db ident = Some oldUser" "editLevel (role oldUser) = Some l"
  shows "updateUser ivp fou fu db ident newUser currentUser =
     (if \<not> userIsAdmin currentUser \<and> c \<le> l \<and> \<not> Str ident = u_id currentUser
      then Inl (ForbiddenError ''You don't have the authorization to change a user of this role.'')
      else if \<not> userIsAdmin currentUser \<and> role newUser \<noteq> role oldUser
      then Inl (ForbiddenError ''Only users with admin privileges can change roles.'')
      else if \<not> userIsAdmin currentUser \<and> uid newUser \<noteq> uid oldUser
      then Inl (ForbiddenError ''Only users with admin privileges can change uids.'')
      else
        let newUser1 = (if truthy (uid oldUser) \<and> uid newUser = Null
                        then newUser\<lparr>uid := uid oldUser\<rparr> else newUser)
        in
        (case password newUser1 of
           Undefined \<Rightarrow> finishUpdate fou fu db ident newUser1 currentUser
         | Null \<Rightarrow> Inl TypeError
         | Str p \<Rightarrow>
             if length p = 0
             then finishUpdate fou fu db ident
                    (newUser1\<lparr>password := Undefined\<rparr>) currentUser
             else if \<not> ivp oldUser (currentPassword newUser1)
             then Inl (BadRequestError ''Invalid current password!'')
             else finishUpdate fou fu db ident newUser1 currentUser))"
  using assms by (cases "Str ident = u_id currentUser") (simp_all add: updateUser_def)

lemma updateUser_loaded_not_BadRequest:
  assumes "editLevel (role newUser) = Some n" "editLevel (role currentUser) = Some c"
    "\<not> (Str ident = u_id currentUser \<and> role currentUser \<noteq> role newUser)"
    "findSameEmail db newUser = []" "findById db ident = Some oldUser" "editLevel (role oldUser) = Some l"
    "m \<noteq> ''Invalid current password!''"
  shows "updateUser ivp fou fu db ident newUser currentUser \<noteq> Inl (BadRequestError m)"
  unfolding updateUser_loaded [OF assms(1-6)] using assms(7)
  by (simp add: Let_def finishUpdate_not_BadRequest split: jsval.split)

lemma updateUser_not_self_role:
  assumes "\<not> (Str ident = u_id currentUser \<and> role currentUser \<noteq> role newUser)"
  shows "updateUser ivp fou fu db ident newUser currentUser \<noteq> Inl (BadRequestError ''You can't change your own role.'')"
proof (cases "editLevel (role newUser)")
  case None
  then show ?thesis by (simp add: updateUser_invalid_role)
next
  case n: (Some n)
  show ?thesis
  proof (cases "editLevel (role currentUser)")
    case None
    with n show ?thesis by (simp add: updateUser_def)
  next
    case c: (Some c)
    show ?thesis
    proof (cases "findSameEmail db newUser = []")
      case False
      then show ?thesis by (simp add: updateUser_dup [OF n c assms])
    next
      case e: True
      show ?thesis
      proof (cases "findById db ident")
        case None
        then show ?thesis by (simp add: updateUser_not_found [OF n c assms e])
      next
        case old: (Some oldUser)
        show ?thesis
        proof (cases "editLevel (role oldUser)")
          case None
          then show ?thesis by (simp add: updateUser_old_role [OF n c assms e old])
        next
          case (Some l)
          show ?thesis by (rule updateUser_loaded_not_BadRequest [OF n c assms e old Some]) simp
        qed
      qed
    qed
  qed
qed

lemma updateUser_not_dup:
  assumes "findSameEmail db newUser = []"
  shows "updateUser ivp fou fu db ident newUser currentUser \<noteq> Inl (BadRequestError ''This email address is already in use.'')"
  using assms by (simp add: updateUser_def Let_def finishUpdate_not_BadRequest split: option.split jsval.split)

lemma updateUser_admin_not_Forbidden:
  assumes "userIsAdmin currentUser"
  shows "updateUser ivp fou fu db ident newUser currentUser \<noteq> Inl (ForbiddenError m)"
  using assms by (simp add: updateUser_def Let_def finishUpdate_not_Forbidden split: option.split jsval.split)

text \<open>
  C4 (as amended). A payload whose role is a string is rejected with the invalid-role error
  if and only if the string is not one of the roles that have an edit level: student,
  teacher and admin. The role tutor has no edit level and is rejected. A payload whose
  role is absent or null is rejected with the same error.
\<close>

theorem updateUser_invalid_role_iff:
  "(role newUser = Str s \<longrightarrow>
      (updateUser ivp fou fu db ident newUser currentUser = Inl (BadRequestError ''Invalid update role.'')
       \<longleftrightarrow> s \<noteq> ''student'' \<and> s \<noteq> ''teacher'' \<and> s \<noteq> ''admin''))
   \<and> (role newUser = Undefined \<or> role newUser = Null \<longrightarrow>
        updateUser ivp fou fu db ident newUser currentUser = Inl (BadRequestError ''Invalid update role.''))"
proof (intro conjI impI)
  assume str: "role newUser = Str s"
  show "updateUser ivp fou fu db ident newUser currentUser = Inl (BadRequestError ''Invalid update role.'')
       \<longleftrightarrow> s \<noteq> ''student'' \<and> s \<noteq> ''teacher'' \<and> s \<noteq> ''admin''"
  proof (cases "editLevel (role newUser)")
    case None
    from updateUser_invalid_role [OF None] None str show ?thesis
      by (simp add: editLevel_None)
  next
    case (Some n)
    have "editLevel (role newUser) \<noteq> None" using Some by simp
    then have known: "\<not> (s \<noteq> ''student'' \<and> s \<noteq> ''teacher'' \<and> s \<noteq> ''admin'')"
      using str by (simp add: editLevel_None)
    have "updateUser ivp fou fu db ident newUser currentUser \<noteq> Inl (BadRequestError ''Invalid update role.'')"
      by (rule updateUser_not_invalid_role [OF Some])
    with known show ?thesis by blast
  qed
next
  assume "role newUser = Undefined \<or> role newUser = Null"
  then have "editLevel (role newUser) = None" by (auto simp: editLevel_None)
  then show "updateUser ivp fou fu db ident newUser currentUser = Inl (BadRequestError ''Invalid update role.'')"
    by (rule updateUser_invalid_role)
qed

text \<open>
  C3 (as amended). When the payload's role is known, the actor is authorized, the call is
  not a change of the actor's own role, and the payload carries the id of the record being
  updated, the update is rejected with the duplicate-email error exactly when a record
  other than the one being updated has the payload's email.
\<close>

theorem updateUser_duplicate_email:
  assumes "editLevel (role newUser) \<noteq> None" and "updateUserAuthorized currentUser"
    and "\<not> (Str ident = u_id currentUser \<and> role currentUser \<noteq> role newUser)"
    and "u_id newUser = Str ident" and "email newUser = Str e"
  shows "updateUser ivp fou fu db ident newUser currentUser
           = Inl (BadRequestError ''This email address is already in use.'')
         \<longleftrightarrow> (\<exists>u\<in>set db. u_id u \<noteq> Str ident \<and> email u = Str e)"
proof -
  obtain n where n: "editLevel (role newUser) = Some n" using assms(1) by auto
  obtain c where c: "editLevel (role currentUser) = Some c"
    using authorized_editLevel [OF assms(2)] by auto
  have ex: "(findSameEmail db newUser \<noteq> []) \<longleftrightarrow> (\<exists>u\<in>set db. u_id u \<noteq> Str ident \<and> email u = Str e)"
    using assms(4,5) by (auto simp: findSameEmail_empty)
  show ?thesis
  proof (cases "findSameEmail db newUser = []")
    case True
    with ex updateUser_not_dup [OF True] show ?thesis by blast
  next
    case False
    with ex updateUser_dup [OF n c assms(3) False] show ?thesis by blast
  qed
qed

text \<open>
  C5. For an authorized actor who updates their own record with a role that differs from
  their own, the update is rejected with a bad-request error, whatever the actor's role:
  the self-role-change error when the payload's role is known, the invalid-role error
  otherwise. A self-update that keeps the role is not rejected with the self-role-change
  error.
\<close>

theorem updateUser_self_role_change:
  assumes "updateUserAuthorized currentUser" and "Str ident = u_id currentUser"
  shows "(role newUser \<noteq> role currentUser \<longrightarrow>
            updateUser ivp fou fu db ident newUser currentUser =
              Inl (BadRequestError
                (if role newUser = Str ''student'' \<or> role newUser = Str ''teacher'' \<or> role newUser = Str ''admin''
                 then ''You can't change your own role.'' else ''Invalid update role.'')))
       \<and> (role newUser = role currentUser \<longrightarrow>
            updateUser ivp fou fu db ident newUser currentUser \<noteq>
              Inl (BadRequestError ''You can't change your own role.''))"
proof (intro conjI impI)
  assume differs: "role newUser \<noteq> role currentUser"
  obtain c where c: "editLevel (role currentUser) = Some c"
    using authorized_editLevel [OF assms(1)] by auto
  show "updateUser ivp fou fu db ident newUser currentUser =
          Inl (BadRequestError
            (if role newUser = Str ''student'' \<or> role newUser = Str ''teacher'' \<or> role newUser = Str ''admin''
             then ''You can't change your own role.'' else ''Invalid update role.''))"
  proof (cases "editLevel (role newUser)")
    case None
    then show ?thesis using updateUser_invalid_role [OF None] by (simp add: editLevel_None)
  next
    case (Some n)
    then have "editLevel (role newUser) \<noteq> None" by simp
    then have "role newUser = Str ''student'' \<or> role newUser = Str ''teacher'' \<or> role newUser = Str ''admin''"
      by (simp add: editLevel_None)
    moreover have "role currentUser \<noteq> role newUser" using differs by simp
    ultimately show ?thesis using updateUser_self_role [OF Some c assms(2)] by simp
  qed
next
  assume "role newUser = role currentUser"
  then have "\<not> (Str ident = u_id currentUser \<and> role currentUser \<noteq> role newUser)" by simp
  then show "updateUser ivp fou fu db ident newUser currentUser \<noteq>
      Inl (BadRequestError ''You can't change your own role.'')"
    by (rule updateUser_not_self_role)
qed

text \<open>
  C6 (as amended). Once the earlier checks have passed (known payload role, no change of
  one's own role, no duplicate email, a stored record with a known role), a non-admin actor
  who submits for another user a role or a uid that differs from the stored one gets a
  forbidden error. An admin actor never gets a forbidden error. What an admin gets is
  decided by the password step alone: with no new password, or with a new password and a
  valid current password, the payload reaches the database write with its role and its
  uid, except that a null uid does not clear a uid that is set; with an empty new
  password the same payload reaches the write without its password; with a new password
  and an invalid current password the update is rejected with the invalid-password error;
  with a null password the call fails on reading its length.
\<close>

theorem updateUser_role_uid_change:
  assumes "editLevel (role newUser) \<noteq> None" and "updateUserAuthorized currentUser"
    and "\<not> (Str ident = u_id currentUser \<and> role currentUser \<noteq> role newUser)"
    and "findSameEmail db newUser = []"
    and "findById db ident = Some oldUser" and "editLevel (role oldUser) \<noteq> None"
  shows "(\<not> userIsAdmin currentUser \<and> Str ident \<noteq> u_id currentUser \<and>
          (role newUser \<noteq> role oldUser \<or> uid newUser \<noteq> uid oldUser) \<longrightarrow>
            updateUser ivp fou fu db ident newUser currentUser \<in>
              {Inl (ForbiddenError ''You don't have the authorization to change a user of this role.''),
               Inl (ForbiddenError ''Only users with admin privileges can change roles.''),
               Inl (ForbiddenError ''Only users with admin privileges can change uids.'')})
       \<and> (userIsAdmin currentUser \<longrightarrow>
            (\<forall>m. updateUser ivp fou fu db ident newUser currentUser \<noteq> Inl (ForbiddenError m)) \<and>
            (let newUser1 = (if truthy (uid oldUser) \<and> uid newUser = Null
                             then newUser\<lparr>uid := uid oldUser\<rparr> else newUser)
             in (password newUser = Undefined \<or>
                 (password newUser \<noteq> Null \<and> password newUser \<noteq> Str [] \<and>
                  ivp oldUser (currentPassword newUser)) \<longrightarrow>
                   updateUser ivp fou fu db ident newUser currentUser =
                     finishUpdate fou fu db ident newUser1 currentUser)
              \<and> (password newUser = Str [] \<longrightarrow>
                   updateUser ivp fou fu db ident newUser currentUser =
                     finishUpdate fou fu db ident (newUser1\<lparr>password := Undefined\<rparr>) currentUser))
            \<and> (password newUser \<noteq> Undefined \<and> password newUser \<noteq> Null \<and>
                password newUser \<noteq> Str [] \<and> \<not> ivp oldUser (currentPassword newUser) \<longrightarrow>
                  updateUser ivp fou fu db ident newUser currentUser =
                    Inl (BadRequestError ''Invalid current password!''))
            \<and> (password newUser = Null \<longrightarrow>
                  updateUser ivp fou fu db ident newUser currentUser = Inl TypeError))"
proof -
  obtain n where n: "editLevel (role newUser) = Some n" using assms(1) by auto
  obtain c where c: "editLevel (role currentUser) = Some c"
    using authorized_editLevel [OF assms(2)] by auto
  obtain l where l: "editLevel (role oldUser) = Some l" using assms(6) by auto
  note loaded = updateUser_loaded [OF n c assms(3) assms(4) assms(5) l]
  have nonadmin: "updateUser ivp fou fu db ident newUser currentUser \<in>
              {Inl (ForbiddenError ''You don't have the authorization to change a user of this role.''),
               Inl (ForbiddenError ''Only users with admin privileges can change roles.''),
               Inl (ForbiddenError ''Only users with admin privileges can change uids.'')}"
    if "\<not> userIsAdmin currentUser" "Str ident \<noteq> u_id currentUser"
       "role newUser \<noteq> role oldUser \<or> uid newUser \<noteq> uid oldUser"
    unfolding loaded using that by auto
  have admin1: "updateUser ivp fou fu db ident newUser currentUser =
      finishUpdate fou fu db ident
        (if truthy (uid oldUser) \<and> uid newUser = Null then newUser\<lparr>uid := uid oldUser\<rparr> else newUser)
        currentUser"
    if "userIsAdmin currentUser"
       "password newUser = Undefined \<or>
        (password newUser \<noteq> Null \<and> password newUser \<noteq> Str [] \<and> ivp oldUser (currentPassword newUser))"
    unfolding loaded using that by (cases "password newUser") (auto simp: Let_def)
  have admin2: "updateUser ivp fou fu db ident newUser currentUser =
      finishUpdate fou fu db ident
        ((if truthy (uid oldUser) \<and> uid newUser = Null then newUser\<lparr>uid := uid oldUser\<rparr> else newUser)
           \<lparr>password := Undefined\<rparr>)
        currentUser"
    if "userIsAdmin currentUser" "password newUser = Str []"
    unfolding loaded using that by (auto simp: Let_def)
  have admin3: "updateUser ivp fou fu db ident newUser currentUser =
      Inl (BadRequestError ''Invalid current password!'')"
    if "userIsAdmin currentUser"
       "password newUser \<noteq> Undefined" "password newUser \<noteq> Null" "password newUser \<noteq> Str []"
       "\<not> ivp oldUser (currentPassword newUser)"
    unfolding loaded using that by (cases "password newUser") (auto simp: Let_def)
  have admin4: "updateUser ivp fou fu db ident newUser currentUser = Inl TypeError"
    if "userIsAdmin currentUser" "password newUser = Null"
    unfolding loaded using that by (auto simp: Let_def)
  show ?thesis
    unfolding Let_def
    using nonadmin admin1 admin2 admin3 admin4
      updateUser_admin_not_Forbidden [of currentUser ivp fou fu db ident newUser]
    by blast
qed

subsection \<open>deleteUser\<close>

lemma filter_findByIdAndRemove_length:
  "length (filter P db) \<le> Suc (length (filter P (findByIdAndRemove db ident)))"
  by (induction db) auto

lemma findByIdAndRemove_keeps:
  "a \<in> set db \<Longrightarrow> u_id a \<noteq> Str ident \<Longrightarrow> a \<in> set (findByIdAndRemove db ident)"
  by (induction db) auto

text \<open>The two outcomes of \<open>deleteUser\<close>.\<close>

lemma deleteUser_cases:
  "deleteUser db ident =
     (if \<exists>a. filter (\<lambda>u. role u = Str ''admin'') db = [a] \<and> u_id a = Str ident
      then Inl (BadRequestError ''There are no other users with admin privileges.'')
      else Inr (findByIdAndRemove db ident, True))"
proof (cases "filter (\<lambda>u. role u = Str ''admin'') db")
  case Nil
  then show ?thesis by (simp add: deleteUser_def)
next
  case (Cons a as)
  then have "a \<in> set (filter (\<lambda>u. role u = Str ''admin'') db)" by simp
  then have "role a = Str ''admin''" by simp
  with Cons show ?thesis by (cases as) (simp_all add: deleteUser_def)
qed

text \<open>
  C7. \<open>deleteUser\<close> rejects with the bad-request error exactly when the admin users are
  one user and that user is the target; otherwise the deletion is made and the result is
  \<open>{result: true}\<close>.
\<close>

theorem deleteUser_sole_admin:
  "deleteUser db ident =
     (if \<exists>a. filter (\<lambda>u. role u = Str ''admin'') db = [a] \<and> u_id a = Str ident
      then Inl (BadRequestError ''There are no other users with admin privileges.'')
      else Inr (findByIdAndRemove db ident, True))"
  by (rule deleteUser_cases)

text \<open>A deletion that is made leaves an admin when there was one.\<close>

lemma deleteUser_keeps_admin:
  assumes "\<exists>u\<in>set db. role u = Str ''admin''" and "deleteUser db ident = Inr (db', r)"
  shows "\<exists>u\<in>set db'. role u = Str ''admin''"
proof -
  let ?P = "\<lambda>u. role u = Str ''admin''"
  have db': "db' = findByIdAndRemove db ident"
    and notsole: "\<not> (\<exists>a. filter ?P db = [a] \<and> u_id a = Str ident)"
    using assms(2) unfolding deleteUser_cases by (auto split: if_splits)
  have ne: "filter ?P db \<noteq> []" using assms(1) by (auto simp: filter_empty_conv)
  show ?thesis
  proof (cases "length (filter ?P db) = 1")
    case True
    then obtain a where a: "filter ?P db = [a]" by (cases "filter ?P db") auto
    then have "a \<in> set (filter ?P db)" by simp
    then have "a \<in> set db" "role a = Str ''admin''" by auto
    moreover have "u_id a \<noteq> Str ident" using notsole a by auto
    ultimately show ?thesis using findByIdAndRemove_keeps db' by blast
  next
    case False
    moreover have "length (filter ?P db) \<noteq> 0" using ne by simp
    ultimately have "2 \<le> length (filter ?P db)" by linarith
    with filter_findByIdAndRemove_length [of ?P db ident]
    have "filter ?P db' \<noteq> []" unfolding db' by auto
    then show ?thesis by (auto simp: filter_empty_conv)
  qed
qed

subsection \<open>The user controller at concrete inputs\<close>

lemmas ex_defs = student1_def teacher1_def admin1_def admin2_def exampleDb_def payload1_def
lemmas run_defs = updateUser_def editLevel_def editLevels_def findSameEmail_def findById_def
  userIsAdmin_def finishUpdate_def mergeUser_def updateUserAuthorized_def

text \<open>
  C4 at concrete inputs: an admin submits for \<open>student1\<close> the role tutor, then the role
  teacher, then no role.
\<close>

theorem updateUser_invalid_role_iff_witness:
  "updateUser (\<lambda>u p. True) writeFirst (\<lambda>u v. u) exampleDb ''s1'' (payload1\<lparr>role := Str ''tutor''\<rparr>) admin1
     = Inl (BadRequestError ''Invalid update role.'')
   \<and> updateUser (\<lambda>u p. True) writeFirst (\<lambda>u v. u) exampleDb ''s1'' (payload1\<lparr>role := Str ''teacher''\<rparr>) admin1
     \<noteq> Inl (BadRequestError ''Invalid update role.'')
   \<and> updateUser (\<lambda>u p. True) writeFirst (\<lambda>u v. u) exampleDb ''s1'' (payload1\<lparr>role := Undefined\<rparr>) admin1
     = Inl (BadRequestError ''Invalid update role.'')"
proof -
  have r1: "role (payload1\<lparr>role := Str ''tutor''\<rparr>) = Str ''tutor''"
    and r2: "role (payload1\<lparr>role := Str ''teacher''\<rparr>) = Str ''teacher''"
    and r3: "role (payload1\<lparr>role := Undefined\<rparr>) = Undefined"
    by simp_all
  from updateUser_invalid_role_iff [where newUser = "payload1\<lparr>role := Str ''tutor''\<rparr>" and s = "''tutor''"] r1
  have c1: "updateUser ivp fou fu db ident (payload1\<lparr>role := Str ''tutor''\<rparr>) cu
      = Inl (BadRequestError ''Invalid update role.'')" for ivp fou fu db ident cu
    by simp
  from updateUser_invalid_role_iff [where newUser = "payload1\<lparr>role := Str ''teacher''\<rparr>" and s = "''teacher''"] r2
  have c2: "updateUser ivp fou fu db ident (payload1\<lparr>role := Str ''teacher''\<rparr>) cu
      \<noteq> Inl (BadRequestError ''Invalid update role.'')" for ivp fou fu db ident cu
    by simp
  from updateUser_invalid_role_iff [where newUser = "payload1\<lparr>role := Undefined\<rparr>"] r3
  have c3: "updateUser ivp fou fu db ident (payload1\<lparr>role := Undefined\<rparr>) cu
      = Inl (BadRequestError ''Invalid update role.'')" for ivp fou fu db ident cu
    by blast
  from c1 c2 c3 show ?thesis by blast
qed

text \<open>
  C4 as first stated fails: tutor is one of the four enumerated roles, and a payload with
  the role tutor is rejected with the invalid-role error.
\<close>

theorem updateUser_invalid_role_counterexample:
  "updateUser (\<lambda>u p. True) writeFirst (\<lambda>u v. u) exampleDb ''s1'' (payload1\<lparr>role := Str ''tutor''\<rparr>) admin1
     = Inl (BadRequestError ''Invalid update role.'')"
  by (simp add: run_defs ex_defs)

text \<open>
  C3 at concrete inputs: \<open>student1\<close> keeps their own email, then takes the email of
  \<open>teacher1\<close>.
\<close>

theorem updateUser_duplicate_email_witness:
  "updateUser (\<lambda>u p. True) writeFirst (\<lambda>u v. u) exampleDb ''s1'' payload1 student1
     \<noteq> Inl (BadRequestError ''This email address is already in use.'')
   \<and> updateUser (\<lambda>u p. True) writeFirst (\<lambda>u v. u) exampleDb ''s1''
       (payload1\<lparr>email := Str ''t1@test.local''\<rparr>) student1
     = Inl (BadRequestError ''This email address is already in use.'')"
  using updateUser_duplicate_email [where newUser = payload1 and e = "''s1@test.local''"
      and ivp = "\<lambda>u p. True" and fou = writeFirst and fu = "\<lambda>u v. u" and db = exampleDb
      and ident = "''s1''" and currentUser = student1]
    updateUser_duplicate_email [where newUser = "payload1\<lparr>email := Str ''t1@test.local''\<rparr>"
      and e = "''t1@test.local''"
      and ivp = "\<lambda>u p. True" and fou = writeFirst and fu = "\<lambda>u v. u" and db = exampleDb
      and ident = "''s1''" and currentUser = student1]
  by (simp add: ex_defs editLevel_def editLevels_def updateUserAuthorized_def)

text \<open>
  C3 as first stated fails twice. A payload with an unknown role and the email of another
  record is rejected with the invalid-role error, not the duplicate-email error. A payload
  whose own \<open>_id\<close> is not the id of the record being updated is rejected with the
  duplicate-email error although only the record being updated has that email.
\<close>

theorem updateUser_duplicate_email_counterexample:
  "updateUser (\<lambda>u p. True) writeFirst (\<lambda>u v. u) exampleDb ''s1''
       (payload1\<lparr>email := Str ''t1@test.local'', role := Str ''tutor''\<rparr>) student1
     = Inl (BadRequestError ''Invalid update role.'')
   \<and> teacher1 \<in> set exampleDb \<and> u_id teacher1 \<noteq> Str ''s1'' \<and> email teacher1 = Str ''t1@test.local''
   \<and> updateUser (\<lambda>u p. True) writeFirst (\<lambda>u v. u) exampleDb ''s1''
       (payload1\<lparr>u_id := Str ''s9''\<rparr>) student1
     = Inl (BadRequestError ''This email address is already in use.'')
   \<and> email payload1 = Str ''s1@test.local''
   \<and> exampleDb = [student1, teacher1, admin1] \<and> u_id student1 = Str ''s1''
   \<and> email teacher1 \<noteq> Str ''s1@test.local'' \<and> email admin1 \<noteq> Str ''s1@test.local''"
  by (simp add: run_defs ex_defs)

text \<open>
  C5 at concrete inputs: a student and an admin each submit another role for themselves;
  a student submits a new email with their own role, and the update is made.
\<close>

theorem updateUser_self_role_change_witness:
  "updateUser (\<lambda>u p. True) writeFirst (\<lambda>u v. u) exampleDb ''s1''
       (payload1\<lparr>role := Str ''admin''\<rparr>) student1
     = Inl (BadRequestError ''You can't change your own role.'')
   \<and> updateUser (\<lambda>u p. True) writeFirst (\<lambda>u v. u) exampleDb ''a1''
       \<lparr>u_id = Str ''a1'', uid = Null, email = Str ''a1@test.local'', password = Undefined,
        role = Str ''teacher'', currentPassword = Undefined\<rparr> admin1
     = Inl (BadRequestError ''You can't change your own role.'')
   \<and> updateUser (\<lambda>u p. True) writeFirst (\<lambda>u v. u) exampleDb ''s1''
       (payload1\<lparr>email := Str ''new@test.local''\<rparr>) student1
     \<noteq> Inl (BadRequestError ''You can't change your own role.'')
   \<and> updateUser (\<lambda>u p. True) writeFirst (\<lambda>u v. u) exampleDb ''s1''
       (payload1\<lparr>email := Str ''new@test.local''\<rparr>) student1
     = Inr ([student1\<lparr>email := Str ''new@test.local''\<rparr>, teacher1, admin1],
            student1\<lparr>email := Str ''new@test.local''\<rparr>)"
proof -
  have run: "updateUser (\<lambda>u p. True) writeFirst (\<lambda>u v. u) exampleDb ''s1''
       (payload1\<lparr>email := Str ''new@test.local''\<rparr>) student1
     = Inr ([student1\<lparr>email := Str ''new@test.local''\<rparr>, teacher1, admin1],
            student1\<lparr>email := Str ''new@test.local''\<rparr>)"
    by (simp add: run_defs ex_defs)
  have s: "updateUserAuthorized student1" "Str ''s1'' = u_id student1"
    by (simp_all add: updateUserAuthorized_def student1_def)
  have a: "updateUserAuthorized admin1" "Str ''a1'' = u_id admin1"
    by (simp_all add: updateUserAuthorized_def admin1_def)
  have r1: "role (payload1\<lparr>role := Str ''admin''\<rparr>) \<noteq> role student1"
    "role (payload1\<lparr>role := Str ''admin''\<rparr>) = Str ''admin''"
    by (simp_all add: student1_def)
  have r2: "role \<lparr>u_id = Str ''a1'', uid = Null, email = Str ''a1@test.local'', password = Undefined,
        role = Str ''teacher'', currentPassword = Undefined\<rparr> \<noteq> role admin1"
    by (simp add: admin1_def)
  have r3: "role (payload1\<lparr>email := Str ''new@test.local''\<rparr>) = role student1"
    by (simp add: student1_def payload1_def)
  from updateUser_self_role_change [OF s, where newUser = "payload1\<lparr>role := Str ''admin''\<rparr>"] r1
  have c1: "updateUser ivp fou fu db ''s1'' (payload1\<lparr>role := Str ''admin''\<rparr>) student1
     = Inl (BadRequestError ''You can't change your own role.'')" for ivp fou fu db
    by simp
  from updateUser_self_role_change [OF a, where newUser = "\<lparr>u_id = Str ''a1'', uid = Null, email = Str ''a1@test.local'', password = Undefined,
        role = Str ''teacher'', currentPassword = Undefined\<rparr>"] r2
  have c2: "updateUser ivp fou fu db ''a1'' \<lparr>u_id = Str ''a1'', uid = Null, email = Str ''a1@test.local'', password = Undefined,
        role = Str ''teacher'', currentPassword = Undefined\<rparr> admin1
     = Inl (BadRequestError ''You can't change your own role.'')" for ivp fou fu db
    by simp
  from updateUser_self_role_change [OF s, where newUser = "payload1\<lparr>email := Str ''new@test.local''\<rparr>"] r3
  have c3: "updateUser ivp fou fu db ''s1'' (payload1\<lparr>email := Str ''new@test.local''\<rparr>) student1
     \<noteq> Inl (BadRequestError ''You can't change your own role.'')" for ivp fou fu db
    by blast
  from c1 c2 c3 run show ?thesis by blast
qed

text \<open>
  C6 at concrete inputs: a teacher, then an admin, submits a new uid for \<open>student1\<close>;
  an admin submits a new uid and a new password with a current password that is not valid.
\<close>

theorem updateUser_role_uid_change_witness:
  "updateUser (\<lambda>u p. True) writeFirst (\<lambda>u v. u) exampleDb ''s1''
       (payload1\<lparr>uid := Str ''999''\<rparr>) teacher1
     \<in> {Inl (ForbiddenError ''You don't have the authorization to change a user of this role.''),
        Inl (ForbiddenError ''Only users with admin privileges can change roles.''),
        Inl (ForbiddenError ''Only users with admin privileges can change uids.'')}
   \<and> updateUser (\<lambda>u p. True) writeFirst (\<lambda>u v. u) exampleDb ''s1''
       (payload1\<lparr>uid := Str ''999'', role := Str ''teacher''\<rparr>) admin1
     = Inr ([student1\<lparr>uid := Str ''999'', role := Str ''teacher''\<rparr>, teacher1, admin1],
            student1\<lparr>uid := Str ''999'', role := Str ''teacher''\<rparr>)
   \<and> updateUser (\<lambda>u p. p = password u) writeFirst (\<lambda>u v. u) exampleDb ''s1''
       (payload1\<lparr>uid := Str ''999'', password := Str ''newpw'', currentPassword := Str ''wrong''\<rparr>)
       admin1
     = Inl (BadRequestError ''Invalid current password!'')"
proof -
  have checks: "editLevel (role (payload1\<lparr>uid := Str ''999''\<rparr>)) \<noteq> None"
    "editLevel (role (payload1\<lparr>uid := Str ''999'', role := Str ''teacher''\<rparr>)) \<noteq> None"
    "editLevel (role (payload1\<lparr>uid := Str ''999'', password := Str ''newpw'',
        currentPassword := Str ''wrong''\<rparr>)) \<noteq> None"
    "updateUserAuthorized teacher1" "updateUserAuthorized admin1"
    "\<not> (Str ''s1'' = u_id teacher1 \<and> role teacher1 \<noteq> role (payload1\<lparr>uid := Str ''999''\<rparr>))"
    "\<not> (Str ''s1'' = u_id admin1 \<and>
        role admin1 \<noteq> role (payload1\<lparr>uid := Str ''999'', role := Str ''teacher''\<rparr>))"
    "\<not> (Str ''s1'' = u_id admin1 \<and>
        role admin1 \<noteq> role (payload1\<lparr>uid := Str ''999'', password := Str ''newpw'',
          currentPassword := Str ''wrong''\<rparr>))"
    "findSameEmail exampleDb (payload1\<lparr>uid := Str ''999''\<rparr>) = []"
    "findSameEmail exampleDb (payload1\<lparr>uid := Str ''999'', role := Str ''teacher''\<rparr>) = []"
    "findSameEmail exampleDb (payload1\<lparr>uid := Str ''999'', password := Str ''newpw'',
        currentPassword := Str ''wrong''\<rparr>) = []"
    "findById exampleDb ''s1'' = Some student1" "editLevel (role student1) \<noteq> None"
    by (simp_all add: ex_defs editLevel_def editLevels_def updateUserAuthorized_def
          findSameEmail_def findById_def)
  have actors: "\<not> userIsAdmin teacher1" "userIsAdmin admin1" "Str ''s1'' \<noteq> u_id teacher1"
    by (simp_all add: ex_defs userIsAdmin_def)
  have fields: "uid (payload1\<lparr>uid := Str ''999''\<rparr>) \<noteq> uid student1"
    "password (payload1\<lparr>uid := Str ''999'', role := Str ''teacher''\<rparr>) = Undefined"
    "\<not> (truthy (uid student1) \<and> uid (payload1\<lparr>uid := Str ''999'', role := Str ''teacher''\<rparr>) = Null)"
    "password (payload1\<lparr>uid := Str ''999'', password := Str ''newpw'',
        currentPassword := Str ''wrong''\<rparr>) = Str ''newpw''"
    "\<not> (currentPassword (payload1\<lparr>uid := Str ''999'', password := Str ''newpw'',
        currentPassword := Str ''wrong''\<rparr>) = password student1)"
    by (simp_all add: ex_defs)
  have written: "finishUpdate writeFirst (\<lambda>u v. u) exampleDb ''s1''
        (payload1\<lparr>uid := Str ''999'', role := Str ''teacher''\<rparr>) admin1
      = Inr ([student1\<lparr>uid := Str ''999'', role := Str ''teacher''\<rparr>, teacher1, admin1],
             student1\<lparr>uid := Str ''999'', role := Str ''teacher''\<rparr>)"
    by (simp add: ex_defs finishUpdate_def mergeUser_def)
  from updateUser_role_uid_change [where newUser = "payload1\<lparr>uid := Str ''999''\<rparr>"
        and ivp = "\<lambda>u p. True" and fou = writeFirst and fu = "\<lambda>u v. u" and db = exampleDb
        and ident = "''s1''" and currentUser = teacher1 and oldUser = student1,
        OF checks(1) checks(4) checks(6) checks(9) checks(12) checks(13)]
    actors fields(1)
  have c1: "updateUser (\<lambda>u p. True) writeFirst (\<lambda>u v. u) exampleDb ''s1''
       (payload1\<lparr>uid := Str ''999''\<rparr>) teacher1
     \<in> {Inl (ForbiddenError ''You don't have the authorization to change a user of this role.''),
        Inl (ForbiddenError ''Only users with admin privileges can change roles.''),
        Inl (ForbiddenError ''Only users with admin privileges can change uids.'')}"
    by blast
  from updateUser_role_uid_change [where newUser = "payload1\<lparr>uid := Str ''999'', role := Str ''teacher''\<rparr>"
        and ivp = "\<lambda>u p. True" and fou = writeFirst and fu = "\<lambda>u v. u" and db = exampleDb
        and ident = "''s1''" and currentUser = admin1 and oldUser = student1,
        OF checks(2) checks(5) checks(7) checks(10) checks(12) checks(13)]
    actors(2) fields(2) fields(3)
  have "updateUser (\<lambda>u p. True) writeFirst (\<lambda>u v. u) exampleDb ''s1''
       (payload1\<lparr>uid := Str ''999'', role := Str ''teacher''\<rparr>) admin1
     = finishUpdate writeFirst (\<lambda>u v. u) exampleDb ''s1''
        (payload1\<lparr>uid := Str ''999'', role := Str ''teacher''\<rparr>) admin1"
    by (simp add: Let_def)
  with written have c2: "updateUser (\<lambda>u p. True) writeFirst (\<lambda>u v. u) exampleDb ''s1''
       (payload1\<lparr>uid := Str ''999'', role := Str ''teacher''\<rparr>) admin1
     = Inr ([student1\<lparr>uid := Str ''999'', role := Str ''teacher''\<rparr>, teacher1, admin1],
            student1\<lparr>uid := Str ''999'', role := Str ''teacher''\<rparr>)"
    by simp
  from updateUser_role_uid_change [where newUser = "payload1\<lparr>uid := Str ''999'',
          password := Str ''newpw'', currentPassword := Str ''wrong''\<rparr>"
        and ivp = "\<lambda>u p. p = password u" and fou = writeFirst and fu = "\<lambda>u v. u" and db = exampleDb
        and ident = "''s1''" and currentUser = admin1 and oldUser = student1,
        OF checks(3) checks(5) checks(8) checks(11) checks(12) checks(13)]
    actors(2) fields(4) fields(5)
  have c3: "updateUser (\<lambda>u p. p = password u) writeFirst (\<lambda>u v. u) exampleDb ''s1''
       (payload1\<lparr>uid := Str ''999'', password := Str ''newpw'', currentPassword := Str ''wrong''\<rparr>)
       admin1
     = Inl (BadRequestError ''Invalid current password!'')"
    by simp
  from c1 c2 c3 show ?thesis by blast
qed

text \<open>
  C6 as first stated fails twice. A teacher who submits a new uid for \<open>student1\<close>
  together with the email of another record gets the duplicate-email error, a bad request,
  not a forbidden error. An admin who submits a null uid for \<open>student1\<close>, whose uid
  is set, is not rejected, and the stored uid stays as it was. An admin who submits a new
  uid with a new password and a current password that is not valid is rejected, with the
  invalid-password error.
\<close>

theorem updateUser_role_uid_change_counterexample:
  "updateUser (\<lambda>u p. True) writeFirst (\<lambda>u v. u) exampleDb ''s1''
       (payload1\<lparr>uid := Str ''999'', email := Str ''a1@test.local''\<rparr>) teacher1
     = Inl (BadRequestError ''This email address is already in use.'')
   \<and> \<not> userIsAdmin teacher1 \<and> u_id teacher1 \<noteq> Str ''s1''
   \<and> findById exampleDb ''s1'' = Some student1 \<and> uid student1 \<noteq> Str ''999''
   \<and> userIsAdmin admin1
   \<and> updateUser (\<lambda>u p. True) writeFirst (\<lambda>u v. u) exampleDb ''s1''
       (payload1\<lparr>uid := Null\<rparr>) admin1
     = Inr (exampleDb, student1)
   \<and> uid student1 = Str ''123456''
   \<and> updateUser (\<lambda>u p. p = password u) writeFirst (\<lambda>u v. u) exampleDb ''s1''
       (payload1\<lparr>uid := Str ''999'', password := Str ''newpw'', currentPassword := Str ''wrong''\<rparr>)
       admin1
     = Inl (BadRequestError ''Invalid current password!'')"
  by (simp add: run_defs ex_defs)

text \<open>
  C7 at concrete inputs: the only admin is deleted, an admin is deleted while another one
  exists, a student is deleted.
\<close>

theorem deleteUser_sole_admin_witness:
  "deleteUser exampleDb ''a1'' = Inl (BadRequestError ''There are no other users with admin privileges.'')
   \<and> deleteUser (exampleDb @ [admin2]) ''a1'' = Inr ([student1, teacher1, admin2], True)
   \<and> deleteUser exampleDb ''s1'' = Inr ([teacher1, admin1], True)"
  using deleteUser_sole_admin [of exampleDb "''a1''"]
    deleteUser_sole_admin [of "exampleDb @ [admin2]" "''a1''"]
    deleteUser_sole_admin [of exampleDb "''s1''"]
  by (simp add: ex_defs)

section \<open>Results on the course media component\<close>

subsection \<open>changeDirectory: sorting by name\<close>

lemma sortFnc_nonpositive:
  "sortFnc nm a b \<le> 0 \<longleftrightarrow> toLowerCase (nm a) \<le> toLowerCase (nm b)"
  by (auto simp: sortFnc_def Let_def)

lemma mset_insertBy: "mset (insertBy comparefn x xs) = add_mset x (mset xs)"
  by (induction xs) simp_all

lemma set_insertBy: "set (insertBy comparefn x xs) = insert x (set xs)"
  by (induction xs) auto

lemma sorted_insertBy:
  fixes key :: "'a \<Rightarrow> 'k::linorder"
  assumes cmp: "\<And>a b. comparefn a b \<le> 0 \<longleftrightarrow> key a \<le> key b"
    and "sorted (map key xs)"
  shows "sorted (map key (insertBy comparefn x xs))"
  using assms(2)
proof (induction xs)
  case Nil
  show ?case by simp
next
  case (Cons y ys)
  show ?case
  proof (cases "comparefn x y \<le> 0")
    case True
    then have "key x \<le> key y" by (simp add: cmp)
    with Cons.prems show ?thesis using True by auto
  next
    case False
    then have "key y \<le> key x" using cmp [of x y] by simp
    moreover have "sorted (map key (insertBy comparefn x ys))"
      using Cons.IH Cons.prems by simp
    ultimately show ?thesis using False Cons.prems
      by (auto simp: set_insertBy)
  qed
qed

lemma mset_Array_sort: "mset (Array_sort comparefn xs) = mset xs"
  by (induction xs) (simp_all add: Array_sort_def mset_insertBy)

lemma sorted_Array_sort:
  fixes key :: "'a \<Rightarrow> 'k::linorder"
  assumes "\<And>a b. comparefn a b \<le> 0 \<longleftrightarrow> key a \<le> key b"
  shows "sorted (map key (Array_sort comparefn xs))"
proof (induction xs)
  case Nil
  show ?case by (simp add: Array_sort_def)
next
  case (Cons x xs)
  have "Array_sort comparefn (x # xs) = insertBy comparefn x (Array_sort comparefn xs)"
    by (simp add: Array_sort_def)
  with Cons sorted_insertBy [of comparefn key, OF assms] show ?case by simp
qed

lemma sorted_by_name:
  "sorted (map (toLowerCase \<circ> nm) (Array_sort (sortFnc nm) xs))"
  by (rule sorted_Array_sort) (simp add: sortFnc_nonpositive)

text \<open>
  C8. After a call to \<open>changeDirectory\<close> whose fetch resolves, whatever the order of the
  fetched directory contents, the files and the subdirectories of \<open>currentFolder\<close> are
  each sorted by lowercased name, nondecreasing, and are the fetched ones rearranged.
\<close>

theorem changeDirectory_sorted:
  assumes "getDirectory mediaId lazy (world st) = (Inr dir, w)"
  shows "fst (changeDirectory getDirectory mediaId lazy st) = None
       \<and> (case currentFolder (snd (changeDirectory getDirectory mediaId lazy st)) of
            None \<Rightarrow> False
          | Some folder \<Rightarrow>
              sorted (map (toLowerCase \<circ> name) (files folder))
            \<and> sorted (map (toLowerCase \<circ> d_name) (subDirectories folder))
            \<and> mset (files folder) = mset (files dir)
            \<and> mset (subDirectories folder) = mset (subDirectories dir)
            \<and> d_id folder = d_id dir \<and> d_name folder = d_name dir)"
  using assms by (simp add: changeDirectory_def Let_def sorted_by_name mset_Array_sort)

text \<open>
  When the fetch is rejected, the call is rejected and \<open>currentFolder\<close> is left as it was.
\<close>

lemma changeDirectory_rejected:
  assumes "getDirectory mediaId lazy (world st) = (Inl msg, w)"
  shows "changeDirectory getDirectory mediaId lazy st =
           (Some (ServiceRejected msg), st\<lparr>effects := effects st @ [GetDirectory mediaId lazy], world := w\<rparr>)"
  using assms by (simp add: changeDirectory_def Let_def)

subsection \<open>toggleSelection: selection by object identity\<close>

lemma indexOf_lower: "- 1 \<le> indexOf xs file"
  by (induction xs) (auto simp: Let_def)

lemma indexOf_absent: "indexOf xs file = - 1 \<longleftrightarrow> oid file \<notin> oid ` set xs"
proof (induction xs)
  case Nil
  show ?case by simp
next
  case (Cons g gs)
  have "indexOf gs file + 1 \<noteq> - 1" using indexOf_lower [of gs "file"] by simp
  with Cons show ?case by (auto simp: Let_def)
qed

lemma isInSelectedFiles_iff:
  "isInSelectedFiles st file \<longleftrightarrow> oid file \<in> oid ` set (selectedFiles st)"
  by (simp add: isInSelectedFiles_def indexOf_absent)

lemma splice1_Cons_0: "splice1 (g # gs) 0 = gs"
  by (simp add: splice1_def)

lemma splice1_Cons_Suc: "0 \<le> i \<Longrightarrow> splice1 (g # gs) (i + 1) = g # splice1 gs i"
  by (simp add: splice1_def nat_add_distrib)

lemma splice1_indexOf:
  assumes "distinct (map oid xs)" and "indexOf xs file \<noteq> - 1"
  shows "oid ` set (splice1 xs (indexOf xs file)) = oid ` set xs - {oid file}
         \<and> distinct (map oid (splice1 xs (indexOf xs file)))"
  using assms
proof (induction xs)
  case Nil
  then show ?case by simp
next
  case (Cons g gs)
  show ?case
  proof (cases "oid g = oid file")
    case True
    with Cons.prems show ?thesis by (auto simp: splice1_Cons_0)
  next
    case False
    with Cons.prems have present: "indexOf gs file \<noteq> - 1" by (auto simp: Let_def)
    then have nonneg: "0 \<le> indexOf gs file" using indexOf_lower [of gs "file"] by linarith
    have idx: "indexOf (g # gs) file = indexOf gs file + 1"
      using False present by (simp add: Let_def)
    have IH: "oid ` set (splice1 gs (indexOf gs file)) = oid ` set gs - {oid file}"
      "distinct (map oid (splice1 gs (indexOf gs file)))"
      using Cons.IH Cons.prems present by simp_all
    show ?thesis
      unfolding idx splice1_Cons_Suc [OF nonneg]
      using IH False Cons.prems(1) by auto
  qed
qed

lemma toggleSelection_distinct:
  assumes "distinct (map oid (selectedFiles st))"
  shows "distinct (map oid (selectedFiles (toggleSelection file st)))"
  using assms splice1_indexOf [of "selectedFiles st" "file"]
  by (auto simp: toggleSelection_def Let_def indexOf_absent)

lemma toggleSelection_flips:
  assumes "\<not> toggleBlocked st" and "distinct (map oid (selectedFiles st))"
  shows "isInSelectedFiles (toggleSelection file st) g
         = (if oid g = oid file then \<not> isInSelectedFiles st g else isInSelectedFiles st g)"
proof (cases "indexOf (selectedFiles st) file = - 1")
  case True
  then have "oid file \<notin> oid ` set (selectedFiles st)" by (simp add: indexOf_absent)
  with True assms(1) show ?thesis
    by (auto simp: toggleSelection_def isInSelectedFiles_iff)
next
  case False
  then have "oid file \<in> oid ` set (selectedFiles st)" by (simp add: indexOf_absent)
  moreover have "oid ` set (splice1 (selectedFiles st) (indexOf (selectedFiles st) file))
      = oid ` set (selectedFiles st) - {oid file}"
    using splice1_indexOf [OF assms(2) False] by simp
  ultimately show ?thesis using False assms(1)
    by (auto simp: toggleSelection_def isInSelectedFiles_iff Let_def)
qed

lemma toggleSelection_toggleBlocked: "toggleBlocked (toggleSelection file st) = toggleBlocked st"
  by (simp add: toggleSelection_def Let_def)

text \<open>
  C10. When \<open>toggleBlocked\<close> is false and no file is selected twice, a call of
  \<open>toggleSelection\<close> flips the membership of its file in \<open>selectedFiles\<close> and leaves
  the membership of every other file, and two calls in a row restore the membership of
  every file. When \<open>toggleBlocked\<close> is true, the component is unchanged.
\<close>

theorem toggleSelection_involution:
  "(\<not> toggleBlocked st \<and> distinct (map oid (selectedFiles st)) \<longrightarrow>
      isInSelectedFiles (toggleSelection file st) file = (\<not> isInSelectedFiles st file)
    \<and> (\<forall>g. oid g \<noteq> oid file \<longrightarrow>
          isInSelectedFiles (toggleSelection file st) g = isInSelectedFiles st g)
    \<and> (\<forall>g. isInSelectedFiles (toggleSelection file (toggleSelection file st)) g
            = isInSelectedFiles st g))
   \<and> (toggleBlocked st \<longrightarrow> toggleSelection file st = st)"
proof (intro conjI impI allI)
  assume a: "\<not> toggleBlocked st \<and> distinct (map oid (selectedFiles st))"
  then have nb: "\<not> toggleBlocked st" and d: "distinct (map oid (selectedFiles st))" by simp_all
  show "isInSelectedFiles (toggleSelection file st) file = (\<not> isInSelectedFiles st file)"
    by (simp add: toggleSelection_flips [OF nb d])
  show "isInSelectedFiles (toggleSelection file st) g = isInSelectedFiles st g"
    if "oid g \<noteq> oid file" for g
    using that by (simp add: toggleSelection_flips [OF nb d])
  have nb': "\<not> toggleBlocked (toggleSelection file st)"
    using nb by (simp add: toggleSelection_toggleBlocked)
  show "isInSelectedFiles (toggleSelection file (toggleSelection file st)) g = isInSelectedFiles st g"
    for g
    by (simp add: toggleSelection_flips [OF nb' toggleSelection_distinct [OF d]]
          toggleSelection_flips [OF nb d])
next
  assume "toggleBlocked st"
  then show "toggleSelection file st = st" by (simp add: toggleSelection_def)
qed

subsection \<open>removeSelectedFile: the loop and its notification\<close>

lemma deleteLoop_result:
  "fst (deleteLoop deleteFile fs filesFailed st) = filesFailed @ failedNames deleteFile fs (world st)
   \<and> effects (snd (deleteLoop deleteFile fs filesFailed st)) = effects st @ map DeleteFile fs
   \<and> currentFolder (snd (deleteLoop deleteFile fs filesFailed st)) = currentFolder st
   \<and> selectedFiles (snd (deleteLoop deleteFile fs filesFailed st)) = selectedFiles st
   \<and> toggleBlocked (snd (deleteLoop deleteFile fs filesFailed st)) = toggleBlocked st"
proof (induction fs arbitrary: filesFailed st)
  case Nil
  show ?case by (simp add: failedNames_def)
next
  case (Cons f rest)
  obtain resolved w where del: "deleteFile f (world st) = (resolved, w)"
    by (cases "deleteFile f (world st)")
  let ?st = "st\<lparr>world := w, effects := effects st @ [DeleteFile f]\<rparr>"
  let ?ff = "if resolved then filesFailed else filesFailed @ [name f]"
  have step: "deleteLoop deleteFile (f # rest) filesFailed st = deleteLoop deleteFile rest ?ff ?st"
    using del by simp
  have names: "failedNames deleteFile (f # rest) (world st)
      = (if resolved then [] else [name f]) @ failedNames deleteFile rest w"
    using del by (simp add: failedNames_def)
  from Cons.IH [of ?ff ?st] show ?case
    unfolding step names by simp
qed

lemma changeDirectory_fields:
  "effects (snd (changeDirectory getDirectory mediaId lazy st)) = effects st @ [GetDirectory mediaId lazy]
   \<and> selectedFiles (snd (changeDirectory getDirectory mediaId lazy st)) = selectedFiles st
   \<and> toggleBlocked (snd (changeDirectory getDirectory mediaId lazy st)) = toggleBlocked st"
  by (simp add: changeDirectory_def Let_def split: prod.split sum.split)

lemma reloadDirectory_fields:
  "effects (snd (reloadDirectory getDirectory st))
     = effects st @ (case currentFolder st of None \<Rightarrow> [] | Some folder \<Rightarrow> [GetDirectory (d_id folder) True])
   \<and> selectedFiles (snd (reloadDirectory getDirectory st)) = selectedFiles st
   \<and> toggleBlocked (snd (reloadDirectory getDirectory st)) = toggleBlocked st"
  by (simp add: reloadDirectory_def changeDirectory_fields split: option.split)

lemma removeSelectedFile_cancelled:
  "removeSelectedFile getDirectory deleteFile (Some False) st = (None, st\<lparr>toggleBlocked := True\<rparr>)"
  by (simp add: removeSelectedFile_def)

text \<open>
  The effects of a confirmed \<open>removeSelectedFile\<close>, through the loop and the reload.
\<close>

lemma removeSelectedFile_confirmed:
  assumes "deleteSelectedFiles \<noteq> Some False"
  shows "effects (snd (removeSelectedFile getDirectory deleteFile deleteSelectedFiles st))
           = effects st
             @ map DeleteFile (selectedFiles st)
             @ [if failedNames deleteFile (selectedFiles st) (world st) = []
                then SnackOpen ''Removed all selected files''
                else SnackOpenLong (''Could not remove: '' @
                       join '', '' (failedNames deleteFile (selectedFiles st) (world st)))]
             @ (case currentFolder st of
                  None \<Rightarrow> []
                | Some folder \<Rightarrow> [GetDirectory (d_id folder) True])
         \<and> selectedFiles (snd (removeSelectedFile getDirectory deleteFile deleteSelectedFiles st)) = []"
proof -
  let ?st1 = "st\<lparr>toggleBlocked := True\<rparr>"
  obtain filesFailed st2 where loop: "deleteLoop deleteFile (selectedFiles st) [] ?st1 = (filesFailed, st2)"
    by (cases "deleteLoop deleteFile (selectedFiles st) [] ?st1")
  from deleteLoop_result [of deleteFile "selectedFiles st" "[]" ?st1]
  have ff: "filesFailed = failedNames deleteFile (selectedFiles st) (world st)"
    and eff: "effects st2 = effects st @ map DeleteFile (selectedFiles st)"
    and cf: "currentFolder st2 = currentFolder st"
    unfolding loop by simp_all
  let ?note = "if filesFailed = [] then SnackOpen ''Removed all selected files''
               else SnackOpenLong (''Could not remove: '' @ join '', '' filesFailed)"
  let ?st4 = "st2\<lparr>effects := effects st2 @ [?note], selectedFiles := []\<rparr>"
  have run: "removeSelectedFile getDirectory deleteFile deleteSelectedFiles st =
      (case reloadDirectory getDirectory ?st4 of
         (Some err, st5) \<Rightarrow> (Some err, st5)
       | (None, st5) \<Rightarrow> (None, st5\<lparr>toggleBlocked := False\<rparr>))"
    using assms loop by (simp add: removeSelectedFile_def Let_def)
  obtain r st5 where reload: "reloadDirectory getDirectory ?st4 = (r, st5)"
    by (cases "reloadDirectory getDirectory ?st4")
  from reloadDirectory_fields [of getDirectory ?st4]
  have e5: "effects st5 = effects st2 @ [?note] @
        (case currentFolder st of None \<Rightarrow> [] | Some folder \<Rightarrow> [GetDirectory (d_id folder) True])"
    and s5: "selectedFiles st5 = []"
    unfolding reload by (simp_all add: cf)
  have "effects (snd (removeSelectedFile getDirectory deleteFile deleteSelectedFiles st)) = effects st5"
    and "selectedFiles (snd (removeSelectedFile getDirectory deleteFile deleteSelectedFiles st)) = selectedFiles st5"
    unfolding run reload by (cases r; simp)+
  then show ?thesis using e5 s5 eff ff by simp
qed

text \<open>
  \<open>join\<close> written out: the first string, then each further string after a separator.
\<close>

lemma join_Cons: "join sep (x # xs) = x @ concat (map ((@) sep) xs)"
  by (induction xs arbitrary: x) simp_all

text \<open>
  C9. In a confirmed bulk deletion, the effects are, in order: one deletion for each
  selected file, whatever the outcome of the earlier ones; one notification; the reload of
  the folder. The notification is the all-success summary when no deletion failed, and
  otherwise \<open>Could not remove: \<close> followed by the names of the files whose deletion
  failed, and of no others, in the order of the selection and separated by a comma and a
  space. The selection is emptied.
\<close>

theorem removeSelectedFile_best_effort:
  assumes "deleteSelectedFiles \<noteq> Some False"
  shows "effects (snd (removeSelectedFile getDirectory deleteFile deleteSelectedFiles st))
           = effects st
             @ map DeleteFile (selectedFiles st)
             @ [case failedNames deleteFile (selectedFiles st) (world st) of
                  [] \<Rightarrow> SnackOpen ''Removed all selected files''
                | n # ns \<Rightarrow>
                    SnackOpenLong (''Could not remove: '' @ n @ concat (map ((@) '', '') ns))]
             @ (case currentFolder st of
                  None \<Rightarrow> []
                | Some folder \<Rightarrow> [GetDirectory (d_id folder) True])
         \<and> selectedFiles (snd (removeSelectedFile getDirectory deleteFile deleteSelectedFiles st)) = []"
proof (cases "failedNames deleteFile (selectedFiles st) (world st)")
  case Nil
  with removeSelectedFile_confirmed [OF assms, of getDirectory deleteFile st]
  show ?thesis by simp
next
  case (Cons n ns)
  with removeSelectedFile_confirmed [OF assms, of getDirectory deleteFile st]
  show ?thesis by (simp add: join_Cons)
qed

lemma removeSelectedFile_selectedFiles:
  "selectedFiles (snd (removeSelectedFile getDirectory deleteFile deleteSelectedFiles st))
     = (if deleteSelectedFiles = Some False then selectedFiles st else [])"
proof (cases "deleteSelectedFiles = Some False")
  case True
  then show ?thesis by (simp add: removeSelectedFile_cancelled)
next
  case False
  then show ?thesis using removeSelectedFile_confirmed [OF False, of getDirectory deleteFile st] by simp
qed

text \<open>
  No file is selected twice: it is so in the initial component, and \<open>toggleSelection\<close>
  (above), \<open>changeDirectory\<close> and \<open>removeSelectedFile\<close> keep it so.
\<close>

lemma selectedFiles_distinct:
  "distinct (map oid (selectedFiles (initialComponent w)))"
  "distinct (map oid (selectedFiles st)) \<Longrightarrow>
     distinct (map oid (selectedFiles (snd (changeDirectory getDirectory mediaId lazy st))))"
  "distinct (map oid (selectedFiles st)) \<Longrightarrow>
     distinct (map oid (selectedFiles (snd (removeSelectedFile getDirectory deleteFile deleteSelectedFiles st))))"
  by (simp_all add: initialComponent_def changeDirectory_fields removeSelectedFile_selectedFiles)

text \<open>
  C8 at a concrete input: the example directory lists \<open>beta.pdf\<close>, \<open>Alpha.txt\<close>,
  \<open>alpha.png\<close> and the folders \<open>Zeta\<close>, \<open>apple\<close>.
\<close>

theorem changeDirectory_sorted_witness:
  "fst (changeDirectory exampleGetDirectory ''d1'' True (initialComponent [''fa'', ''fc''])) = None
   \<and> currentFolder (snd (changeDirectory exampleGetDirectory ''d1'' True (initialComponent [''fa'', ''fc''])))
       = Some (IDirectory ''d1'' ''media''
                 [IDirectory ''d2'' ''apple'' [] [], IDirectory ''d3'' ''Zeta'' [] []]
                 [fileC, fileB, fileA])
   \<and> sorted (map (toLowerCase \<circ> name) [fileC, fileB, fileA])"
proof -
  have fetched: "exampleGetDirectory ''d1'' True (world (initialComponent [''fa'', ''fc'']))
      = (Inr exampleDir, [''fa'', ''fc''])"
    by (simp add: exampleGetDirectory_def initialComponent_def)
  have run: "currentFolder (snd (changeDirectory exampleGetDirectory ''d1'' True (initialComponent [''fa'', ''fc''])))
       = Some (IDirectory ''d1'' ''media''
                 [IDirectory ''d2'' ''apple'' [] [], IDirectory ''d3'' ''Zeta'' [] []]
                 [fileC, fileB, fileA])"
    by code_simp
  note sorted = changeDirectory_sorted [where getDirectory = exampleGetDirectory
      and mediaId = "''d1''" and lazy = True and st = "initialComponent [''fa'', ''fc'']"
      and dir = exampleDir and w = "[''fa'', ''fc'']", OF fetched]
  have resolved: "fst (changeDirectory exampleGetDirectory ''d1'' True (initialComponent [''fa'', ''fc''])) = None"
    using sorted by (rule conjunct1)
  have files: "sorted (map (toLowerCase \<circ> name) [fileC, fileB, fileA])"
    using sorted [THEN conjunct2] unfolding run by simp
  from resolved run files show ?thesis by blast
qed

text \<open>
  C10 at a concrete input: \<open>fileA\<close> is selected and \<open>fileB\<close> is toggled, once and
  twice, and once while toggling is blocked.
\<close>

theorem toggleSelection_involution_witness:
  "isInSelectedFiles (toggleSelection fileB ((initialComponent [''fa''])\<lparr>selectedFiles := [fileA]\<rparr>)) fileB
   \<and> isInSelectedFiles (toggleSelection fileB ((initialComponent [''fa''])\<lparr>selectedFiles := [fileA]\<rparr>)) fileA
   \<and> \<not> isInSelectedFiles
         (toggleSelection fileB (toggleSelection fileB ((initialComponent [''fa''])\<lparr>selectedFiles := [fileA]\<rparr>)))
         fileB
   \<and> toggleSelection fileB ((initialComponent [''fa''])\<lparr>selectedFiles := [fileA], toggleBlocked := True\<rparr>)
       = (initialComponent [''fa''])\<lparr>selectedFiles := [fileA], toggleBlocked := True\<rparr>"
proof -
  let ?st = "(initialComponent [''fa''])\<lparr>selectedFiles := [fileA]\<rparr>"
  have open_: "\<not> toggleBlocked ?st \<and> distinct (map oid (selectedFiles ?st))"
    by (simp add: initialComponent_def)
  have before: "\<not> isInSelectedFiles ?st fileB" "isInSelectedFiles ?st fileA" "oid fileA \<noteq> oid fileB"
    by (simp_all add: isInSelectedFiles_def initialComponent_def fileA_def fileB_def)
  have blocked: "toggleBlocked (?st\<lparr>toggleBlocked := True\<rparr>)" by simp
  from toggleSelection_involution [of ?st fileB] open_ before
  have "isInSelectedFiles (toggleSelection fileB ?st) fileB"
    and "isInSelectedFiles (toggleSelection fileB ?st) fileA"
    and "\<not> isInSelectedFiles (toggleSelection fileB (toggleSelection fileB ?st)) fileB"
    by blast+
  moreover from toggleSelection_involution [of "?st\<lparr>toggleBlocked := True\<rparr>" fileB] blocked
  have "toggleSelection fileB (?st\<lparr>toggleBlocked := True\<rparr>) = ?st\<lparr>toggleBlocked := True\<rparr>"
    by blast
  ultimately show ?thesis by simp
qed

text \<open>
  C9 at concrete inputs: three files are selected; the service stores the second one only,
  then the first and the third, then all three, then none.
\<close>

theorem removeSelectedFile_best_effort_witness:
  "effects (snd (removeSelectedFile exampleGetDirectory exampleDeleteFile (Some True)
                   (exampleComponent [''fb''])))
     = [DeleteFile fileA, DeleteFile fileB, DeleteFile fileC,
        SnackOpenLong ''Could not remove: beta.pdf, alpha.png'', GetDirectory ''d1'' True]
   \<and> effects (snd (removeSelectedFile exampleGetDirectory exampleDeleteFile (Some True)
                   (exampleComponent [''fa'', ''fc''])))
     = [DeleteFile fileA, DeleteFile fileB, DeleteFile fileC,
        SnackOpenLong ''Could not remove: Alpha.txt'', GetDirectory ''d1'' True]
   \<and> effects (snd (removeSelectedFile exampleGetDirectory exampleDeleteFile (Some True)
                   (exampleComponent [''fa'', ''fb'', ''fc''])))
     = [DeleteFile fileA, DeleteFile fileB, DeleteFile fileC,
        SnackOpen ''Removed all selected files'', GetDirectory ''d1'' True]
   \<and> effects (snd (removeSelectedFile exampleGetDirectory exampleDeleteFile None
                   (exampleComponent [])))
     = [DeleteFile fileA, DeleteFile fileB, DeleteFile fileC,
        SnackOpenLong ''Could not remove: beta.pdf, Alpha.txt, alpha.png'', GetDirectory ''d1'' True]"
proof -
  have confirmed: "Some True \<noteq> Some False" "None \<noteq> Some False" by simp_all
  have two: "failedNames exampleDeleteFile [fileA, fileB, fileC] [''fb''] = [''beta.pdf'', ''alpha.png'']"
    by code_simp
  have one: "failedNames exampleDeleteFile [fileA, fileB, fileC] [''fa'', ''fc''] = [''Alpha.txt'']"
    by code_simp
  have none: "failedNames exampleDeleteFile [fileA, fileB, fileC] [''fa'', ''fb'', ''fc''] = []"
    by code_simp
  have all: "failedNames exampleDeleteFile [fileA, fileB, fileC] []
      = [''beta.pdf'', ''Alpha.txt'', ''alpha.png'']"
    by code_simp
  have st: "selectedFiles (exampleComponent w) = [fileA, fileB, fileC]"
    "world (exampleComponent w) = w" "effects (exampleComponent w) = []"
    "currentFolder (exampleComponent w) = Some exampleDir" "d_id exampleDir = ''d1''" for w
    by (simp_all add: exampleComponent_def initialComponent_def exampleDir_def)
  from removeSelectedFile_best_effort [OF confirmed(1), of exampleGetDirectory exampleDeleteFile
      "exampleComponent [''fb'']"]
  have c1: "effects (snd (removeSelectedFile exampleGetDirectory exampleDeleteFile (Some True)
                   (exampleComponent [''fb''])))
     = [DeleteFile fileA, DeleteFile fileB, DeleteFile fileC,
        SnackOpenLong ''Could not remove: beta.pdf, alpha.png'', GetDirectory ''d1'' True]"
    by (simp add: st two)
  from removeSelectedFile_best_effort [OF confirmed(1), of exampleGetDirectory exampleDeleteFile
      "exampleComponent [''fa'', ''fc'']"]
  have c2: "effects (snd (removeSelectedFile exampleGetDirectory exampleDeleteFile (Some True)
                   (exampleComponent [''fa'', ''fc''])))
     = [DeleteFile fileA, DeleteFile fileB, DeleteFile fileC,
        SnackOpenLong ''Could not remove: Alpha.txt'', GetDirectory ''d1'' True]"
    by (simp add: st one)
  from removeSelectedFile_best_effort [OF confirmed(1), of exampleGetDirectory exampleDeleteFile
      "exampleComponent [''fa'', ''fb'', ''fc'']"]
  have c3: "effects (snd (removeSelectedFile exampleGetDirectory exampleDeleteFile (Some True)
                   (exampleComponent [''fa'', ''fb'', ''fc''])))
     = [DeleteFile fileA, DeleteFile fileB, DeleteFile fileC,
        SnackOpen ''Removed all selected files'', GetDirectory ''d1'' True]"
    by (simp add: st none)
  from removeSelectedFile_best_effort [OF confirmed(2), of exampleGetDirectory exampleDeleteFile
      "exampleComponent []"]
  have c4: "effects (snd (removeSelectedFile exampleGetDirectory exampleDeleteFile None
                   (exampleComponent [])))
     = [DeleteFile fileA, DeleteFile fileB, DeleteFile fileC,
        SnackOpenLong ''Could not remove: beta.pdf, Alpha.txt, alpha.png'', GetDirectory ''d1'' True]"
    by (simp add: st all)
  from c1 c2 c3 c4 show ?thesis by blast
qed

end
